theory Spec2Isabelle
  imports Main
begin

section \<open>Common vocabulary\<close>

text \<open>
  Instants are integers; \<open>0\<close> stands for Go's zero \<open>time.Time\<close>, which is what the
  go-github accessors (\<open>GetCreatedAt\<close>, \<open>GetClosedAt\<close>, \<open>GetPublishedAt\<close>) return for
  an absent timestamp.
\<close>

type_synonym time = int

definition IsZero :: "time \<Rightarrow> bool" where
  "IsZero t = (t = 0)"

definition Before :: "time \<Rightarrow> time \<Rightarrow> bool" where
  "Before t u = (t < u)"

definition After :: "time \<Rightarrow> time \<Rightarrow> bool" where
  "After t u = (u < t)"

text \<open>Go's \<open>error\<close> values; \<open>None :: error option\<close> is \<open>nil\<close>.\<close>

datatype error =
    StoreError
  | ApiError
  | SendError
  | JsonError
  | ReadError
  | Wrapped string error

text \<open>\<open>fmt.Sprintf("%d", n)\<close> for a Go \<open>int\<close>.\<close>

fun string_of_nat :: "nat \<Rightarrow> string" where
  "string_of_nat n =
     (if n < 10 then [''0123456789'' ! n]
      else string_of_nat (n div 10) @ [''0123456789'' ! (n mod 10)])"

declare string_of_nat.simps [simp del]

definition itoa :: "int \<Rightarrow> string" where
  "itoa n = (if n < 0 then ''-'' @ string_of_nat (nat (- n)) else string_of_nat (nat n))"

section \<open>Storage: the subscription store and the event ledger\<close>

text \<open>\<open>internal/storage/models.go\<close>. The surrogate row id of \<open>event_records\<close> is left
  out: no query of the store reads it.\<close>

record Subscription =
  sub_ID :: int
  sub_ChatID :: int
  sub_RepoOwner :: string
  sub_RepoName :: string
  sub_Events :: string
  sub_CreatedAt :: time

record EventRecord =
  er_RepoOwner :: string
  er_RepoName :: string
  er_EventType :: string
  er_EventID :: string
  er_CreatedAt :: time

text \<open>The two tables the core reads and writes.\<close>

record Database =
  subscriptions :: "Subscription list"
  event_records :: "EventRecord list"

text \<open>A ledger key: \<open>(repo_owner, repo_name, event_type, event_id)\<close>, the columns of
  the table's \<open>UNIQUE\<close> constraint.\<close>

type_synonym dedup_key = "string \<times> string \<times> string \<times> string"

definition key_of :: "EventRecord \<Rightarrow> dedup_key" where
  "key_of r = (er_RepoOwner r, er_RepoName r, er_EventType r, er_EventID r)"

text \<open>
  What the SQL driver does is not decided by the program: a statement can fail
  (I/O error, locked database). The record below is that environment: which
  statements fail, and the clock behind \<open>CURRENT_TIMESTAMP\<close>.
\<close>

record driver =
  exec_fails :: "dedup_key \<Rightarrow> bool"
  get_fails :: "dedup_key \<Rightarrow> bool"
  select_fails :: bool
  now :: time

text \<open>\<open>RecordEvent\<close>: \<open>INSERT OR IGNORE INTO event_records ...\<close>; the result of
  \<open>Exec\<close> is discarded and only the error is returned.\<close>

definition RecordEvent ::
  "driver \<Rightarrow> string \<Rightarrow> string \<Rightarrow> string \<Rightarrow> string \<Rightarrow> Database \<Rightarrow> Database \<times> error option" where
  "RecordEvent drv repoOwner repoName eventType eventID d =
     (if exec_fails drv (repoOwner, repoName, eventType, eventID) then (d, Some StoreError)
      else if (repoOwner, repoName, eventType, eventID) \<in> set (map key_of (event_records d))
      then (d, None)
      else (d\<lparr>event_records := event_records d @
               [\<lparr>er_RepoOwner = repoOwner, er_RepoName = repoName, er_EventType = eventType,
                 er_EventID = eventID, er_CreatedAt = now drv\<rparr>]\<rparr>, None))"

text \<open>\<open>IsEventProcessed\<close>: \<open>SELECT COUNT(*)\<close> into \<open>count\<close>, which is declared just
  before and keeps its zero value when the query fails; returns \<open>(count > 0, err)\<close>.\<close>

definition IsEventProcessed ::
  "driver \<Rightarrow> string \<Rightarrow> string \<Rightarrow> string \<Rightarrow> string \<Rightarrow> Database \<Rightarrow> bool \<times> error option" where
  "IsEventProcessed drv repoOwner repoName eventType eventID d =
     (if get_fails drv (repoOwner, repoName, eventType, eventID) then (False, Some StoreError)
      else (0 < length (filter (\<lambda>r. key_of r = (repoOwner, repoName, eventType, eventID))
                          (event_records d)), None))"

text \<open>\<open>GetSubscriptionsByRepo\<close> and \<open>GetAllSubscribedRepos\<close>.\<close>

definition GetSubscriptionsByRepo ::
  "driver \<Rightarrow> string \<Rightarrow> string \<Rightarrow> Database \<Rightarrow> error + Subscription list" where
  "GetSubscriptionsByRepo drv repoOwner repoName d =
     (if select_fails drv then Inl StoreError
      else Inr (filter (\<lambda>s. sub_RepoOwner s = repoOwner \<and> sub_RepoName s = repoName)
                  (subscriptions d)))"

definition GetAllSubscribedRepos :: "driver \<Rightarrow> Database \<Rightarrow> error + (string \<times> string) list" where
  "GetAllSubscribedRepos drv d =
     (if select_fails drv then Inl StoreError
      else Inr (remdups (map (\<lambda>s. (sub_RepoOwner s, sub_RepoName s)) (subscriptions d))))"

text \<open>A driver that never fails, and an empty database, for concrete runs.\<close>

definition sound_driver :: "time \<Rightarrow> driver" where
  "sound_driver t = \<lparr>exec_fails = (\<lambda>k. False), get_fails = (\<lambda>k. False),
                     select_fails = False, now = t\<rparr>"

definition empty_db :: Database where
  "empty_db = \<lparr>subscriptions = [], event_records = []\<rparr>"

section \<open>The normalized event model\<close>

text \<open>\<open>internal/github/events.go\<close>. Fields a struct literal leaves out hold Go's zero
  value: the empty string, \<open>False\<close>, \<open>0\<close>, \<open>[]\<close>, \<open>None\<close>.\<close>

record UserInfo =
  ui_Login :: string
  ui_AvatarURL :: string
  ui_URL :: string

record CommitInfo =
  ci_SHA :: string
  ci_Message :: string
  ci_Author :: UserInfo
  ci_URL :: string
  ci_Timestamp :: time
  ci_Added :: "string list"
  ci_Removed :: "string list"
  ci_Modified :: "string list"

record PushEvent =
  pe_Ref :: string
  pe_Before :: string
  pe_After :: string
  pe_Commits :: "CommitInfo list"
  pe_Pusher :: UserInfo
  pe_Compare :: string
  pe_HeadCommit :: "CommitInfo option"

record ReleaseEvent =
  re_Action :: string
  re_TagName :: string
  re_Name :: string
  re_Body :: string
  re_Draft :: bool
  re_Prerelease :: bool
  re_URL :: string
  re_Author :: UserInfo
  re_PublishedAt :: time

record IssueEvent =
  ie_Action :: string
  ie_Number :: int
  ie_Title :: string
  ie_Body :: string
  ie_State :: string
  ie_URL :: string
  ie_User :: UserInfo
  ie_Labels :: "string list"
  ie_Assignee :: "UserInfo option"

record BranchInfo =
  bi_Ref :: string
  bi_SHA :: string
  bi_Repo :: string

record PullRequestEvent =
  pr_Action :: string
  pr_Number :: int
  pr_Title :: string
  pr_Body :: string
  pr_State :: string
  pr_URL :: string
  pr_User :: UserInfo
  pr_Merged :: bool
  pr_MergedBy :: "UserInfo option"
  pr_Base :: BranchInfo
  pr_Head :: BranchInfo
  pr_Additions :: int
  pr_Deletions :: int
  pr_Commits :: int

text \<open>\<open>WebhookEvent.Payload\<close> is an \<open>interface{}\<close>; both producers (the webhook parser
  and the poller) only ever store one of these four.\<close>

datatype Payload =
    Push PushEvent
  | Release ReleaseEvent
  | Issue IssueEvent
  | PullRequest PullRequestEvent

record WebhookEvent =
  ev_Type :: string
  ev_RepoOwner :: string
  ev_RepoName :: string
  ev_Payload :: Payload

text \<open>A run of Go code either returns or panics (here: a slice bound out of range).\<close>

datatype 'a outcome = Panics | Returns 'a

subsection \<open>Message formatting\<close>

text \<open>The decorations of the format strings, byte for byte as the source file stores them.\<close>

definition LF :: string where "LF = [CHR 0x0A]"

definition icon_push :: string where
  "icon_push = [CHR 0xC3, CHR 0xB0, CHR 0xC5, CHR 0xB8, CHR 0xE2, CHR 0x80, CHR 0x9D, CHR 0xC2, CHR 0xA8]"

definition icon_bullet :: string where
  "icon_bullet = [CHR 0xC3, CHR 0xA2, CHR 0xE2, CHR 0x82, CHR 0xAC, CHR 0xC2, CHR 0xA2]"

definition icon_release :: string where
  "icon_release = [CHR 0xC3, CHR 0xB0, CHR 0xC5, CHR 0xB8, CHR 0xC5, CHR 0xBD, CHR 0xE2, CHR 0x80, CHR 0xB0]"

definition icon_prerelease :: string where
  "icon_prerelease = [CHR 0xC3, CHR 0xB0, CHR 0xC5, CHR 0xB8, CHR 0xC2, CHR 0xA7, CHR 0xC2, CHR 0xAA]"

definition icon_tag :: string where
  "icon_tag = [CHR 0xC3, CHR 0xB0, CHR 0xC5, CHR 0xB8, CHR 0xE2, CHR 0x80, CHR 0x9C, CHR 0xC2, CHR 0xA6]"

definition icon_user :: string where
  "icon_user = [CHR 0xC3, CHR 0xB0, CHR 0xC5, CHR 0xB8, CHR 0xE2, CHR 0x80, CHR 0x98, CHR 0xC2, CHR 0xA4]"

definition icon_opened :: string where
  "icon_opened = [CHR 0xC3, CHR 0xB0, CHR 0xC5, CHR 0xB8, CHR 0xE2, CHR 0x80, CHR 0x9C]"

definition icon_closed :: string where
  "icon_closed = [CHR 0xC3, CHR 0xA2, CHR 0xC5, CHR 0x93, CHR 0xE2, CHR 0x80, CHR 0xA6]"

definition icon_reopened :: string where
  "icon_reopened = [CHR 0xC3, CHR 0xB0, CHR 0xC5, CHR 0xB8, CHR 0xE2, CHR 0x80, CHR 0x9D, CHR 0xE2, CHR 0x80, CHR 0x9E]"

definition icon_issue :: string where
  "icon_issue = [CHR 0xC3, CHR 0xB0, CHR 0xC5, CHR 0xB8, CHR 0xE2, CHR 0x80, CHR 0x9C, CHR 0xE2, CHR 0x80, CHR 0xB9]"

definition icon_title :: string where
  "icon_title = [CHR 0xC3, CHR 0xB0, CHR 0xC5, CHR 0xB8, CHR 0xE2, CHR 0x80, CHR 0x9C, CHR 0xC5, CHR 0x92]"

definition icon_labels :: string where
  "icon_labels = [CHR 0xC3, CHR 0xB0, CHR 0xC5, CHR 0xB8, CHR 0xC2, CHR 0xB7, CHR 0xC3, CHR 0xAF, CHR 0xC2, CHR 0xB8]"

definition icon_pr :: string where
  "icon_pr = [CHR 0xC3, CHR 0xB0, CHR 0xC5, CHR 0xB8, CHR 0xE2, CHR 0x80, CHR 0x9D, CHR 0xE2, CHR 0x82, CHR 0xAC]"

definition icon_pr_closed :: string where
  "icon_pr_closed = [CHR 0xC3, CHR 0xA2, CHR 0xC5, CHR 0x92]"

definition icon_merged :: string where
  "icon_merged = [CHR 0xC3, CHR 0xB0, CHR 0xC5, CHR 0xB8, CHR 0xC5, CHR 0xBD, CHR 0xC5, CHR 0xA0]"

definition icon_arrow :: string where
  "icon_arrow = [CHR 0xC3, CHR 0xA2, CHR 0xE2, CHR 0x80, CHR 0xA0, CHR 0xE2, CHR 0x80, CHR 0x99]"

definition icon_stats :: string where
  "icon_stats = [CHR 0xC3, CHR 0xB0, CHR 0xC5, CHR 0xB8, CHR 0xE2, CHR 0x80, CHR 0x9C, CHR 0xC5, CHR 0xA0]"

definition icon_bell :: string where
  "icon_bell = [CHR 0xF0, CHR 0x9F, CHR 0x94, CHR 0x94]"

definition extractBranchName :: "string \<Rightarrow> string" where
  "extractBranchName ref =
     (if length ref > 11 \<and> take 11 ref = ''refs/heads/'' then drop 11 ref else ref)"

text \<open>\<open>truncateString\<close>; its callers pass 50 and 300 for \<open>maxLen\<close>.\<close>

definition truncateString :: "string \<Rightarrow> nat \<Rightarrow> string" where
  "truncateString s maxLen = (if length s \<le> maxLen then s else take (maxLen - 3) s @ ''...'')"

text \<open>\<open>escapeMarkdown\<close>: a \<open>strings.Replacer\<close> whose patterns are all single bytes, so
  each listed byte gets a backslash in front of it.\<close>

definition escapeMarkdown :: "string \<Rightarrow> string" where
  "escapeMarkdown s =
     concat (map (\<lambda>c. if c \<in> set ''_*[]()~`>#+-=|{}.!'' then [CHR 0x5C, c] else [c]) s)"

text \<open>\<open>%v\<close> of a \<open>[]string\<close>.\<close>

fun join_spaces :: "string list \<Rightarrow> string" where
  "join_spaces [] = []"
| "join_spaces [x] = x"
| "join_spaces (x # y # ys) = x @ '' '' @ join_spaces (y # ys)"

definition format_strings :: "string list \<Rightarrow> string" where
  "format_strings xs = ''['' @ join_spaces xs @ '']''"

definition commit_line :: "CommitInfo \<Rightarrow> string" where
  "commit_line commit =
     icon_bullet @ '' [`'' @ take 7 (ci_SHA commit) @ ''`]('' @ ci_URL commit @ '') ''
       @ escapeMarkdown (truncateString (ci_Message commit) 50) @ LF"

text \<open>The loop over the first commits; \<open>commit.SHA[:7]\<close> panics on a shorter string.\<close>

fun commit_lines :: "CommitInfo list \<Rightarrow> string outcome" where
  "commit_lines [] = Returns []"
| "commit_lines (commit # rest) =
     (if length (ci_SHA commit) < 7 then Panics
      else (case commit_lines rest of
              Panics \<Rightarrow> Panics
            | Returns s \<Rightarrow> Returns (commit_line commit @ s)))"

definition PushEvent_FormatMessage :: "PushEvent \<Rightarrow> string outcome" where
  "PushEvent_FormatMessage e =
     (let branch = extractBranchName (pe_Ref e);
          commitCount = length (pe_Commits e);
          commitWord = (if commitCount > 1 then ''commits'' else ''commit'');
          msg = icon_push @ '' *'' @ ui_Login (pe_Pusher e) @ ''* pushed ''
                  @ itoa (int commitCount) @ '' '' @ commitWord @ '' to `'' @ branch @ ''`''
                  @ LF @ LF;
          maxCommits = (if length (pe_Commits e) < 5 then length (pe_Commits e) else 5)
      in case commit_lines (take maxCommits (pe_Commits e)) of
           Panics \<Rightarrow> Panics
         | Returns ls \<Rightarrow>
             Returns (msg @ ls
               @ (if length (pe_Commits e) > 5
                  then LF @ ''_...and '' @ itoa (int (length (pe_Commits e)) - 5)
                         @ '' more commits_'' @ LF
                  else [])
               @ LF @ ''[Compare changes]('' @ pe_Compare e @ '')''))"

definition ReleaseEvent_FormatMessage :: "ReleaseEvent \<Rightarrow> string" where
  "ReleaseEvent_FormatMessage e =
     (let emoji = (if re_Prerelease e then icon_prerelease else icon_release);
          name = (if re_Name e = [] then re_TagName e else re_Name e)
      in emoji @ '' *New Release: '' @ name @ ''*'' @ LF @ LF
         @ icon_tag @ '' Tag: `'' @ re_TagName e @ ''`'' @ LF
         @ icon_user @ '' Author: '' @ ui_Login (re_Author e) @ LF
         @ (if re_Body e \<noteq> [] then LF @ truncateString (re_Body e) 300 @ LF else [])
         @ LF @ ''[View Release]('' @ re_URL e @ '')'')"

definition issue_actionEmoji :: "string \<Rightarrow> string" where
  "issue_actionEmoji action =
     (if action = ''opened'' then icon_opened
      else if action = ''closed'' then icon_closed
      else if action = ''reopened'' then icon_reopened
      else [])"

definition IssueEvent_FormatMessage :: "IssueEvent \<Rightarrow> string" where
  "IssueEvent_FormatMessage e =
     (let emoji = (if issue_actionEmoji (ie_Action e) = [] then icon_issue
                   else issue_actionEmoji (ie_Action e))
      in emoji @ '' *Issue #'' @ itoa (ie_Number e) @ '' '' @ ie_Action e @ ''*'' @ LF @ LF
         @ icon_title @ '' '' @ escapeMarkdown (ie_Title e) @ LF
         @ icon_user @ '' By: '' @ escapeMarkdown (ui_Login (ie_User e)) @ LF
         @ (if length (ie_Labels e) > 0
            then icon_labels @ '' Labels: '' @ format_strings (ie_Labels e) @ LF else [])
         @ LF @ ''[View Issue]('' @ ie_URL e @ '')'')"

definition pr_actionEmoji :: "string \<Rightarrow> string" where
  "pr_actionEmoji action =
     (if action = ''opened'' then icon_pr
      else if action = ''closed'' then icon_pr_closed
      else if action = ''merged'' then icon_merged
      else if action = ''reopened'' then icon_reopened
      else [])"

definition PullRequestEvent_FormatMessage :: "PullRequestEvent \<Rightarrow> string" where
  "PullRequestEvent_FormatMessage e =
     (let action = (if pr_Action e = ''closed'' \<and> pr_Merged e then ''merged'' else pr_Action e);
          emoji = (if pr_actionEmoji action = [] then icon_pr else pr_actionEmoji action)
      in emoji @ '' *PR #'' @ itoa (pr_Number e) @ '' '' @ action @ ''*'' @ LF @ LF
         @ icon_title @ '' '' @ escapeMarkdown (pr_Title e) @ LF
         @ icon_user @ '' By: '' @ escapeMarkdown (ui_Login (pr_User e)) @ LF
         @ icon_pr @ '' '' @ escapeMarkdown (bi_Ref (pr_Head e)) @ '' '' @ icon_arrow @ '' ''
             @ escapeMarkdown (bi_Ref (pr_Base e)) @ LF
         @ (if pr_Commits e > 0
            then icon_stats @ '' '' @ itoa (pr_Commits e) @ '' commits, +''
                   @ itoa (pr_Additions e) @ ''/-'' @ itoa (pr_Deletions e) @ '' lines'' @ LF
            else [])
         @ LF @ ''[View PR]('' @ pr_URL e @ '')'')"

text \<open>\<open>internal/telegram/messages.go\<close>: the four \<open>MessageBuilder\<close> methods put the same
  header in front of the event's own text.\<close>

definition message_header :: "string \<Rightarrow> string \<Rightarrow> string" where
  "message_header repoOwner repoName =
     icon_bell @ '' *'' @ repoOwner @ ''/'' @ repoName @ ''*'' @ LF @ LF"

definition BuildPushMessage :: "string \<Rightarrow> string \<Rightarrow> PushEvent \<Rightarrow> string outcome" where
  "BuildPushMessage repoOwner repoName event =
     (case PushEvent_FormatMessage event of
        Panics \<Rightarrow> Panics
      | Returns m \<Rightarrow> Returns (message_header repoOwner repoName @ m))"

definition BuildReleaseMessage :: "string \<Rightarrow> string \<Rightarrow> ReleaseEvent \<Rightarrow> string" where
  "BuildReleaseMessage repoOwner repoName event =
     message_header repoOwner repoName @ ReleaseEvent_FormatMessage event"

definition BuildIssueMessage :: "string \<Rightarrow> string \<Rightarrow> IssueEvent \<Rightarrow> string" where
  "BuildIssueMessage repoOwner repoName event =
     message_header repoOwner repoName @ IssueEvent_FormatMessage event"

definition BuildPRMessage :: "string \<Rightarrow> string \<Rightarrow> PullRequestEvent \<Rightarrow> string" where
  "BuildPRMessage repoOwner repoName event =
     message_header repoOwner repoName @ PullRequestEvent_FormatMessage event"

section \<open>The notifier\<close>

text \<open>
  \<open>internal/notifier/notifier.go\<close>. Besides the SQL driver, the notifier depends on
  \<open>encoding/json\<close> (decoding a subscription's \<open>events\<close> column into a \<open>[]EventType\<close>)
  and on the Telegram client (\<open>bot.Send\<close>); both are parameters. The messages Telegram
  accepted are kept as a list of \<open>(chat id, text)\<close>.
\<close>

record notifier_env =
  store_driver :: driver
  Unmarshal_events :: "string \<Rightarrow> error + string list"
  Send_fails :: "int \<Rightarrow> string \<Rightarrow> bool"

type_synonym outbox = "(int \<times> string) list"

text \<open>\<open>generateEventID\<close> and \<open>buildMessage\<close> switch on the payload's type; their
  \<open>default\<close> branches are for payloads no producer builds.\<close>

definition generateEventID :: "WebhookEvent \<Rightarrow> string" where
  "generateEventID event =
     (case ev_Payload event of
        Push e \<Rightarrow> pe_After e
      | Release e \<Rightarrow> re_TagName e
      | Issue e \<Rightarrow> itoa (ie_Number e) @ ''-'' @ ie_Action e
      | PullRequest e \<Rightarrow> itoa (pr_Number e) @ ''-'' @ pr_Action e)"

definition buildMessage :: "WebhookEvent \<Rightarrow> string outcome" where
  "buildMessage event =
     (case ev_Payload event of
        Push e \<Rightarrow> BuildPushMessage (ev_RepoOwner event) (ev_RepoName event) e
      | Release e \<Rightarrow> Returns (BuildReleaseMessage (ev_RepoOwner event) (ev_RepoName event) e)
      | Issue e \<Rightarrow> Returns (BuildIssueMessage (ev_RepoOwner event) (ev_RepoName event) e)
      | PullRequest e \<Rightarrow> Returns (BuildPRMessage (ev_RepoOwner event) (ev_RepoName event) e))"

definition isEventEnabled :: "notifier_env \<Rightarrow> Subscription \<Rightarrow> string \<Rightarrow> bool" where
  "isEventEnabled env sub eventType =
     (case Unmarshal_events env (sub_Events sub) of
        Inl err \<Rightarrow> True
      | Inr events \<Rightarrow> eventType \<in> set events)"

definition sendNotification ::
  "notifier_env \<Rightarrow> int \<Rightarrow> string \<Rightarrow> outbox \<Rightarrow> outbox \<times> error option" where
  "sendNotification env chatID message sent =
     (if Send_fails env chatID message then (sent, Some SendError)
      else (sent @ [(chatID, message)], None))"

text \<open>The fan-out loop: a failed send is logged and the loop goes on.\<close>

fun send_to_subscribers ::
  "notifier_env \<Rightarrow> string \<Rightarrow> string \<Rightarrow> Subscription list \<Rightarrow> outbox \<Rightarrow> outbox" where
  "send_to_subscribers env eventType message [] sent = sent"
| "send_to_subscribers env eventType message (sub # subs) sent =
     (if isEventEnabled env sub eventType
      then send_to_subscribers env eventType message subs
             (fst (sendNotification env (sub_ChatID sub) message sent))
      else send_to_subscribers env eventType message subs sent)"

text \<open>\<open>HandleWebhookEvent\<close>: the database and the outbox after the call, and the error
  returned.\<close>

definition HandleWebhookEvent ::
  "notifier_env \<Rightarrow> WebhookEvent \<Rightarrow> Database \<Rightarrow> outbox
     \<Rightarrow> (Database \<times> outbox \<times> error option) outcome" where
  "HandleWebhookEvent env event d sent =
     (case GetSubscriptionsByRepo (store_driver env) (ev_RepoOwner event) (ev_RepoName event) d of
        Inl err \<Rightarrow> Returns (d, sent, Some (Wrapped ''failed to get subscribers'' err))
      | Inr subs \<Rightarrow>
          if length subs = 0 then Returns (d, sent, None)
          else
            let eventID = generateEventID event;
                processed = fst (IsEventProcessed (store_driver env) (ev_RepoOwner event)
                                   (ev_RepoName event) (ev_Type event) eventID d)
            in if processed then Returns (d, sent, None)
               else
                 (case buildMessage event of
                    Panics \<Rightarrow> Panics
                  | Returns message \<Rightarrow>
                      if message = [] then Returns (d, sent, None)
                      else
                        let sent' = send_to_subscribers env (ev_Type event) message subs sent;
                            d' = fst (RecordEvent (store_driver env) (ev_RepoOwner event)
                                        (ev_RepoName event) (ev_Type event) eventID d)
                        in Returns (d', sent', None)))"

text \<open>The consumer goroutine of \<open>cmd/bot/main.go\<close>: it takes the events off the channel
  in order and hands each to the notifier, whose error it only logs.\<close>

fun process_events ::
  "notifier_env \<Rightarrow> WebhookEvent list \<Rightarrow> Database \<Rightarrow> outbox \<Rightarrow> (Database \<times> outbox) outcome" where
  "process_events env [] d sent = Returns (d, sent)"
| "process_events env (event # rest) d sent =
     (case HandleWebhookEvent env event d sent of
        Panics \<Rightarrow> Panics
      | Returns (d', sent', err) \<Rightarrow> process_events env rest d' sent')"

section \<open>The event channel\<close>

text \<open>
  The buffered channel \<open>eventsCh\<close> (\<open>make(chan *github.WebhookEvent, 100)\<close> in
  \<open>cmd/bot/main.go\<close>): its pending events and its capacity. Every producer sends with
  \<open>select { case ch <- event: ... default: ... }\<close>, which never blocks.
\<close>

record EventChannel =
  ch_buf :: "WebhookEvent list"
  ch_cap :: nat

definition try_send :: "EventChannel \<Rightarrow> WebhookEvent \<Rightarrow> EventChannel \<times> bool" where
  "try_send ch event =
     (if length (ch_buf ch) < ch_cap ch then (ch\<lparr>ch_buf := ch_buf ch @ [event]\<rparr>, True)
      else (ch, False))"

section \<open>The webhook ingestor\<close>

text \<open>
  \<open>internal/github/webhook.go\<close>. \<open>json.Unmarshal\<close> into each of the anonymous structs of
  \<open>parseEvent\<close> is a parameter: the decoder maps the body to the decoded struct or to an
  error. The structs are flattened; \<open>head_commit\<close>, which \<open>parseEvent\<close> decodes and never
  reads, is left out.
\<close>

record BasePayload =
  bp_OwnerLogin :: string
  bp_Name :: string

record JsonUser =
  ju_Login :: string
  ju_AvatarURL :: string
  ju_HTMLURL :: string

record PushCommitPayload =
  pc_ID :: string
  pc_Message :: string
  pc_Timestamp :: string
  pc_URL :: string
  pc_Added :: "string list"
  pc_Removed :: "string list"
  pc_Modified :: "string list"
  pc_AuthorName :: string
  pc_AuthorEmail :: string

record PushPayload =
  pp_Ref :: string
  pp_Before :: string
  pp_After :: string
  pp_Compare :: string
  pp_PusherName :: string
  pp_Commits :: "PushCommitPayload list"

record ReleasePayload =
  rp_Action :: string
  rp_TagName :: string
  rp_Name :: string
  rp_Body :: string
  rp_Draft :: bool
  rp_Prerelease :: bool
  rp_HTMLURL :: string
  rp_PublishedAt :: string
  rp_Author :: JsonUser

record IssuePayload =
  ip_Action :: string
  ip_Number :: int
  ip_Title :: string
  ip_Body :: string
  ip_State :: string
  ip_HTMLURL :: string
  ip_User :: JsonUser
  ip_Labels :: "string list"
  ip_Assignee :: "JsonUser option"

record PullRequestPayload =
  prp_Action :: string
  prp_Number :: int
  prp_Title :: string
  prp_Body :: string
  prp_State :: string
  prp_HTMLURL :: string
  prp_Merged :: bool
  prp_Additions :: int
  prp_Deletions :: int
  prp_Commits :: int
  prp_User :: JsonUser
  prp_MergedBy :: "JsonUser option"
  prp_BaseRef :: string
  prp_BaseSHA :: string
  prp_HeadRef :: string
  prp_HeadSHA :: string

record json_decoder =
  Unmarshal_base :: "string \<Rightarrow> error + BasePayload"
  Unmarshal_push :: "string \<Rightarrow> error + PushPayload"
  Unmarshal_release :: "string \<Rightarrow> error + ReleasePayload"
  Unmarshal_issues :: "string \<Rightarrow> error + IssuePayload"
  Unmarshal_pull_request :: "string \<Rightarrow> error + PullRequestPayload"

definition user_of :: "JsonUser \<Rightarrow> UserInfo" where
  "user_of u = \<lparr>ui_Login = ju_Login u, ui_AvatarURL = ju_AvatarURL u, ui_URL = ju_HTMLURL u\<rparr>"

definition commit_of :: "PushCommitPayload \<Rightarrow> CommitInfo" where
  "commit_of c =
     \<lparr>ci_SHA = pc_ID c, ci_Message = pc_Message c,
      ci_Author = \<lparr>ui_Login = pc_AuthorName c, ui_AvatarURL = [], ui_URL = []\<rparr>,
      ci_URL = pc_URL c, ci_Timestamp = 0,
      ci_Added = pc_Added c, ci_Removed = pc_Removed c, ci_Modified = pc_Modified c\<rparr>"

text \<open>The log calls a handler makes, in order.\<close>

datatype log_level = Debug | Info | Warn | Error

type_synonym log = "(log_level \<times> string) list"

text \<open>\<open>parseEvent\<close>: \<open>Inl err\<close> is \<open>(nil, err)\<close>, \<open>Inr None\<close> is \<open>(nil, nil)\<close> (ignored) and
  \<open>Inr (Some event)\<close> is \<open>(event, nil)\<close>.\<close>

definition parseEvent ::
  "json_decoder \<Rightarrow> string \<Rightarrow> string \<Rightarrow> (error + WebhookEvent option) \<times> log" where
  "parseEvent dec eventType body =
     (case Unmarshal_base dec body of
        Inl err \<Rightarrow> (Inl (Wrapped ''failed to parse base event'' err), [])
      | Inr baseEvent \<Rightarrow>
          let repoOwner = bp_OwnerLogin baseEvent;
              repoName = bp_Name baseEvent;
              event = (\<lambda>payload. \<lparr>ev_Type = eventType, ev_RepoOwner = repoOwner,
                                  ev_RepoName = repoName, ev_Payload = payload\<rparr>)
          in
          if eventType = ''push'' then
            (case Unmarshal_push dec body of
               Inl err \<Rightarrow> (Inl (Wrapped ''failed to parse push event'' err), [])
             | Inr pushPayload \<Rightarrow>
                 (Inr (Some (event (Push
                    \<lparr>pe_Ref = pp_Ref pushPayload, pe_Before = pp_Before pushPayload,
                      pe_After = pp_After pushPayload,
                      pe_Commits = map commit_of (pp_Commits pushPayload),
                      pe_Pusher = \<lparr>ui_Login = pp_PusherName pushPayload,
                                    ui_AvatarURL = [], ui_URL = []\<rparr>,
                      pe_Compare = pp_Compare pushPayload, pe_HeadCommit = None\<rparr>))), []))
          else if eventType = ''release'' then
            (case Unmarshal_release dec body of
               Inl err \<Rightarrow> (Inl (Wrapped ''failed to parse release event'' err), [])
             | Inr releasePayload \<Rightarrow>
                 if rp_Action releasePayload \<noteq> ''published'' then (Inr None, [])
                 else
                   (Inr (Some (event (Release
                      \<lparr>re_Action = rp_Action releasePayload, re_TagName = rp_TagName releasePayload,
                        re_Name = rp_Name releasePayload, re_Body = rp_Body releasePayload,
                        re_Draft = rp_Draft releasePayload,
                        re_Prerelease = rp_Prerelease releasePayload,
                        re_URL = rp_HTMLURL releasePayload,
                        re_Author = user_of (rp_Author releasePayload),
                        re_PublishedAt = 0\<rparr>))), []))
          else if eventType = ''issues'' then
            (case Unmarshal_issues dec body of
               Inl err \<Rightarrow> (Inl (Wrapped ''failed to parse issue event'' err), [])
             | Inr issuePayload \<Rightarrow>
                 if ip_Action issuePayload \<noteq> ''opened'' \<and> ip_Action issuePayload \<noteq> ''closed''
                    \<and> ip_Action issuePayload \<noteq> ''reopened''
                 then (Inr None, [])
                 else
                   (Inr (Some (event (Issue
                      \<lparr>ie_Action = ip_Action issuePayload, ie_Number = ip_Number issuePayload,
                        ie_Title = ip_Title issuePayload, ie_Body = ip_Body issuePayload,
                        ie_State = ip_State issuePayload, ie_URL = ip_HTMLURL issuePayload,
                        ie_User = user_of (ip_User issuePayload),
                        ie_Labels = ip_Labels issuePayload,
                        ie_Assignee = map_option user_of (ip_Assignee issuePayload)\<rparr>))), []))
          else if eventType = ''pull_request'' then
            (case Unmarshal_pull_request dec body of
               Inl err \<Rightarrow> (Inl (Wrapped ''failed to parse pull request event'' err), [])
             | Inr prPayload \<Rightarrow>
                 if prp_Action prPayload \<noteq> ''opened'' \<and> prp_Action prPayload \<noteq> ''closed''
                    \<and> prp_Action prPayload \<noteq> ''reopened''
                 then (Inr None, [])
                 else
                   (Inr (Some (event (PullRequest
                      \<lparr>pr_Action = prp_Action prPayload, pr_Number = prp_Number prPayload,
                        pr_Title = prp_Title prPayload, pr_Body = prp_Body prPayload,
                        pr_State = prp_State prPayload, pr_URL = prp_HTMLURL prPayload,
                        pr_User = user_of (prp_User prPayload),
                        pr_Merged = prp_Merged prPayload,
                        pr_MergedBy = map_option user_of (prp_MergedBy prPayload),
                        pr_Base = \<lparr>bi_Ref = prp_BaseRef prPayload, bi_SHA = prp_BaseSHA prPayload,
                                    bi_Repo = []\<rparr>,
                        pr_Head = \<lparr>bi_Ref = prp_HeadRef prPayload, bi_SHA = prp_HeadSHA prPayload,
                                    bi_Repo = []\<rparr>,
                        pr_Additions = prp_Additions prPayload,
                        pr_Deletions = prp_Deletions prPayload,
                        pr_Commits = prp_Commits prPayload\<rparr>))), []))
          else (Inr None, [(Debug, ''Ignoring unsupported event type'')]))"

text \<open>
  The HTTP request as \<open>ServeHTTP\<close> reads it: the method, what \<open>io.ReadAll(r.Body)\<close>
  gives, and \<open>r.Header.Get\<close> (the empty string for an absent header). \<open>hex.DecodeString\<close>
  and the HMAC-SHA256 of the body under the secret are parameters.
\<close>

record Request =
  req_Method :: string
  req_Body :: "error + string"
  req_Header :: "string \<Rightarrow> string"

record Response =
  resp_Status :: nat
  resp_Body :: string

record WebhookHandler =
  wh_secret :: string
  wh_json :: json_decoder
  wh_hex_DecodeString :: "string \<Rightarrow> error + string"
  wh_hmac_sha256 :: "string \<Rightarrow> string \<Rightarrow> string"

definition verifySignature :: "WebhookHandler \<Rightarrow> string \<Rightarrow> string \<Rightarrow> bool" where
  "verifySignature h body signature =
     (if take 7 signature \<noteq> ''sha256='' then False
      else (case wh_hex_DecodeString h (drop 7 signature) of
              Inl err \<Rightarrow> False
            | Inr sig \<Rightarrow> sig = wh_hmac_sha256 h (wh_secret h) body))"

text \<open>\<open>http.Error(w, msg, code)\<close> writes \<open>msg\<close> and a newline.\<close>

definition http_Error :: "string \<Rightarrow> nat \<Rightarrow> Response" where
  "http_Error msg code = \<lparr>resp_Status = code, resp_Body = msg @ LF\<rparr>"

definition ServeHTTP ::
  "WebhookHandler \<Rightarrow> Request \<Rightarrow> EventChannel \<Rightarrow> Response \<times> EventChannel \<times> log" where
  "ServeHTTP h r ch =
     (if req_Method r \<noteq> ''POST'' then (http_Error ''Method not allowed'' 405, ch, [])
      else
        (case req_Body r of
           Inl err \<Rightarrow>
             (http_Error ''Failed to read body'' 400, ch, [(Error, ''Failed to read webhook body'')])
         | Inr body \<Rightarrow>
             if wh_secret h \<noteq> []
                \<and> \<not> verifySignature h body (req_Header r ''X-Hub-Signature-256'')
             then (http_Error ''Invalid signature'' 401, ch, [(Warn, ''Invalid webhook signature'')])
             else
               let eventType = req_Header r ''X-GitHub-Event'' in
               if eventType = [] then (http_Error ''Missing event type'' 400, ch, [])
               else
                 (case parseEvent (wh_json h) eventType body of
                    (Inl err, lg) \<Rightarrow>
                      (http_Error ''Failed to parse event'' 400, ch,
                       lg @ [(Error, ''Failed to parse event'')])
                  | (Inr None, lg) \<Rightarrow> (\<lparr>resp_Status = 200, resp_Body = ''OK''\<rparr>, ch, lg)
                  | (Inr (Some event), lg) \<Rightarrow>
                      if snd (try_send ch event)
                      then (\<lparr>resp_Status = 200, resp_Body = ''OK''\<rparr>, fst (try_send ch event),
                            lg @ [(Info, ''Webhook event received'')])
                      else (\<lparr>resp_Status = 200, resp_Body = ''OK''\<rparr>, fst (try_send ch event),
                            lg @ [(Warn, ''Event channel full, dropping event'')]))))"

section \<open>The poller\<close>

text \<open>
  The records of the go-github client, with the fields the poller reads through the
  nil-safe \<open>Get...\<close> accessors (an absent field reads as the zero value). \<open>rc_Date\<close> and
  \<open>gi_UpdatedAt\<close> are never read by the poller; only the API's own \<open>since\<close> filter
  looks at them.
\<close>

record RepositoryCommit =
  rc_SHA :: string
  rc_AuthorLogin :: string
  rc_Message :: string
  rc_CommitAuthorName :: string
  rc_HTMLURL :: string
  rc_Date :: time

record RepositoryRelease =
  rr_TagName :: string
  rr_Name :: string
  rr_Body :: string
  rr_Draft :: bool
  rr_Prerelease :: bool
  rr_HTMLURL :: string
  rr_AuthorLogin :: string
  rr_PublishedAt :: time

record GhIssue =
  gi_Number :: int
  gi_Title :: string
  gi_Body :: string
  gi_State :: string
  gi_HTMLURL :: string
  gi_UserLogin :: string
  gi_Labels :: "string list"
  gi_CreatedAt :: time
  gi_ClosedAt :: time
  gi_UpdatedAt :: time
  gi_IsPullRequest :: bool

record GhPullRequest =
  gp_Number :: int
  gp_Title :: string
  gp_Body :: string
  gp_State :: string
  gp_HTMLURL :: string
  gp_Merged :: bool
  gp_UserLogin :: string
  gp_Additions :: int
  gp_Deletions :: int
  gp_Commits :: int
  gp_BaseRef :: string
  gp_HeadRef :: string
  gp_CreatedAt :: time
  gp_ClosedAt :: time

text \<open>
  The four list calls of the API client, as parameters: owner, name, the \<open>Since\<close> option
  where the call has one (\<open>None\<close> when the poller leaves it out) and \<open>PerPage\<close>. The
  other options are the same in every call (\<open>State: "all"\<close>, \<open>Sort: "created"\<close>,
  \<open>Direction: "desc"\<close>).
\<close>

record github_client =
  ListCommits :: "string \<Rightarrow> string \<Rightarrow> time option \<Rightarrow> nat \<Rightarrow> error + RepositoryCommit list"
  ListReleases :: "string \<Rightarrow> string \<Rightarrow> nat \<Rightarrow> error + RepositoryRelease list"
  ListByRepo :: "string \<Rightarrow> string \<Rightarrow> time option \<Rightarrow> nat \<Rightarrow> error + GhIssue list"
  ListPulls :: "string \<Rightarrow> string \<Rightarrow> nat \<Rightarrow> error + GhPullRequest list"

record Poller =
  p_client :: github_client
  p_driver :: driver
  p_startTime :: time

text \<open>What the poller works on: the database behind \<open>p.store\<close> and the channel
  \<open>p.eventsCh\<close>.\<close>

record World =
  db :: Database
  eventsCh :: EventChannel

text \<open>The poller's event ids, as its \<open>fmt.Sprintf\<close> calls build them.\<close>

definition release_eventID :: "string \<Rightarrow> string" where
  "release_eventID tagName = ''release-'' @ tagName"

definition issue_created_eventID :: "int \<Rightarrow> string" where
  "issue_created_eventID number = ''issue-'' @ itoa number @ ''-created''"

definition issue_closed_eventID :: "int \<Rightarrow> string" where
  "issue_closed_eventID number = ''issue-'' @ itoa number @ ''-closed''"

definition pr_created_eventID :: "int \<Rightarrow> string" where
  "pr_created_eventID number = ''pr-'' @ itoa number @ ''-created''"

definition pr_merged_eventID :: "int \<Rightarrow> string" where
  "pr_merged_eventID number = ''pr-'' @ itoa number @ ''-merged''"

definition pr_closed_eventID :: "int \<Rightarrow> string" where
  "pr_closed_eventID number = ''pr-'' @ itoa number @ ''-closed''"

text \<open>\<open>p.store.RecordEvent(...)\<close> with the error dropped, and
  \<open>processed, _ := p.store.IsEventProcessed(...)\<close>.\<close>

definition record_event :: "Poller \<Rightarrow> string \<Rightarrow> string \<Rightarrow> string \<Rightarrow> string \<Rightarrow> World \<Rightarrow> World" where
  "record_event p owner name eventType eventID w =
     w\<lparr>db := fst (RecordEvent (p_driver p) owner name eventType eventID (db w))\<rparr>"

definition processed :: "Poller \<Rightarrow> string \<Rightarrow> string \<Rightarrow> string \<Rightarrow> string \<Rightarrow> World \<Rightarrow> bool" where
  "processed p owner name eventType eventID w =
     fst (IsEventProcessed (p_driver p) owner name eventType eventID (db w))"

text \<open>The non-blocking send on \<open>p.eventsCh\<close>.\<close>

definition emit :: "WebhookEvent \<Rightarrow> World \<Rightarrow> World" where
  "emit event w = w\<lparr>eventsCh := fst (try_send (eventsCh w) event)\<rparr>"

subsection \<open>Initialization\<close>

fun record_commits :: "Poller \<Rightarrow> string \<Rightarrow> string \<Rightarrow> RepositoryCommit list \<Rightarrow> World \<Rightarrow> World" where
  "record_commits p owner name [] w = w"
| "record_commits p owner name (commit # rest) w =
     record_commits p owner name rest
       (if rc_SHA commit \<noteq> [] then record_event p owner name ''push'' (rc_SHA commit) w else w)"

fun record_releases :: "Poller \<Rightarrow> string \<Rightarrow> string \<Rightarrow> RepositoryRelease list \<Rightarrow> World \<Rightarrow> World" where
  "record_releases p owner name [] w = w"
| "record_releases p owner name (release # rest) w =
     record_releases p owner name rest
       (if \<not> rr_Draft release
        then record_event p owner name ''release'' (release_eventID (rr_TagName release)) w
        else w)"

definition record_issue :: "Poller \<Rightarrow> string \<Rightarrow> string \<Rightarrow> GhIssue \<Rightarrow> World \<Rightarrow> World" where
  "record_issue p owner name issue w =
     (if \<not> gi_IsPullRequest issue then
        let w1 = record_event p owner name ''issues'' (issue_created_eventID (gi_Number issue)) w
        in if gi_State issue = ''closed''
           then record_event p owner name ''issues'' (issue_closed_eventID (gi_Number issue)) w1
           else w1
      else w)"

fun record_issues :: "Poller \<Rightarrow> string \<Rightarrow> string \<Rightarrow> GhIssue list \<Rightarrow> World \<Rightarrow> World" where
  "record_issues p owner name [] w = w"
| "record_issues p owner name (issue # rest) w =
     record_issues p owner name rest (record_issue p owner name issue w)"

definition record_pr :: "Poller \<Rightarrow> string \<Rightarrow> string \<Rightarrow> GhPullRequest \<Rightarrow> World \<Rightarrow> World" where
  "record_pr p owner name pr w =
     (let w1 = record_event p owner name ''pull_request'' (pr_created_eventID (gp_Number pr)) w
      in if gp_State pr = ''closed''
         then record_event p owner name ''pull_request''
                (if gp_Merged pr then pr_merged_eventID (gp_Number pr)
                 else pr_closed_eventID (gp_Number pr)) w1
         else w1)"

fun record_prs :: "Poller \<Rightarrow> string \<Rightarrow> string \<Rightarrow> GhPullRequest list \<Rightarrow> World \<Rightarrow> World" where
  "record_prs p owner name [] w = w"
| "record_prs p owner name (pr # rest) w =
     record_prs p owner name rest (record_pr p owner name pr w)"

definition recordExistingEvents :: "Poller \<Rightarrow> string \<Rightarrow> string \<Rightarrow> World \<Rightarrow> World" where
  "recordExistingEvents p owner name w =
     (let w1 = (case ListCommits (p_client p) owner name None 10 of
                  Inl err \<Rightarrow> w
                | Inr commits \<Rightarrow> record_commits p owner name commits w);
          w2 = (case ListReleases (p_client p) owner name 5 of
                  Inl err \<Rightarrow> w1
                | Inr releases \<Rightarrow> record_releases p owner name releases w1);
          w3 = (case ListByRepo (p_client p) owner name None 20 of
                  Inl err \<Rightarrow> w2
                | Inr issues \<Rightarrow> record_issues p owner name issues w2);
          w4 = (case ListPulls (p_client p) owner name 20 of
                  Inl err \<Rightarrow> w3
                | Inr prs \<Rightarrow> record_prs p owner name prs w3)
      in w4)"

text \<open>
  The loop over the subscribed repositories checks \<open>p.ctx.Done()\<close> before each one;
  \<open>cancelled i\<close> says whether the context is done when the loop reaches repository \<open>i\<close>.
\<close>

fun initialize_loop ::
  "Poller \<Rightarrow> (nat \<Rightarrow> bool) \<Rightarrow> nat \<Rightarrow> (string \<times> string) list \<Rightarrow> World \<Rightarrow> World" where
  "initialize_loop p cancelled i [] w = w"
| "initialize_loop p cancelled i (repo # rest) w =
     (if cancelled i then w
      else initialize_loop p cancelled (Suc i) rest
             (recordExistingEvents p (fst repo) (snd repo) w))"

definition initializeRepos :: "Poller \<Rightarrow> (nat \<Rightarrow> bool) \<Rightarrow> World \<Rightarrow> World" where
  "initializeRepos p cancelled w =
     (case GetAllSubscribedRepos (p_driver p) (db w) of
        Inl err \<Rightarrow> w
      | Inr repos \<Rightarrow>
          if length repos = 0 then w else initialize_loop p cancelled 0 repos w)"

subsection \<open>Steady state\<close>

definition commit_event :: "string \<Rightarrow> string \<Rightarrow> RepositoryCommit \<Rightarrow> WebhookEvent" where
  "commit_event owner name commit =
     \<lparr>ev_Type = ''push'', ev_RepoOwner = owner, ev_RepoName = name,
      ev_Payload = Push
        \<lparr>pe_Ref = ''refs/heads/main'', pe_Before = [], pe_After = rc_SHA commit,
          pe_Commits =
            [\<lparr>ci_SHA = rc_SHA commit, ci_Message = rc_Message commit,
              ci_Author = \<lparr>ui_Login = rc_CommitAuthorName commit, ui_AvatarURL = [], ui_URL = []\<rparr>,
              ci_URL = rc_HTMLURL commit, ci_Timestamp = 0,
              ci_Added = [], ci_Removed = [], ci_Modified = []\<rparr>],
          pe_Pusher = \<lparr>ui_Login = rc_AuthorLogin commit, ui_AvatarURL = [], ui_URL = []\<rparr>,
          pe_Compare = rc_HTMLURL commit, pe_HeadCommit = None\<rparr>\<rparr>"

text \<open>After a successful send, the log call takes \<open>sha[:7]\<close>, which panics on a shorter
  string; the \<open>default\<close> branch does not.\<close>

fun pollCommits_loop ::
  "Poller \<Rightarrow> string \<Rightarrow> string \<Rightarrow> RepositoryCommit list \<Rightarrow> World \<Rightarrow> World outcome" where
  "pollCommits_loop p owner name [] w = Returns w"
| "pollCommits_loop p owner name (commit # rest) w =
     (if rc_SHA commit = [] then pollCommits_loop p owner name rest w
      else if processed p owner name ''push'' (rc_SHA commit) w
      then pollCommits_loop p owner name rest w
      else if snd (try_send (eventsCh w) (commit_event owner name commit))
      then (if length (rc_SHA commit) < 7 then Panics
            else pollCommits_loop p owner name rest (emit (commit_event owner name commit) w))
      else pollCommits_loop p owner name rest w)"

definition pollCommits :: "Poller \<Rightarrow> string \<Rightarrow> string \<Rightarrow> World \<Rightarrow> World outcome" where
  "pollCommits p owner name w =
     (case ListCommits (p_client p) owner name (Some (p_startTime p)) 10 of
        Inl err \<Rightarrow> Returns w
      | Inr commits \<Rightarrow> pollCommits_loop p owner name commits w)"

definition release_event :: "string \<Rightarrow> string \<Rightarrow> RepositoryRelease \<Rightarrow> WebhookEvent" where
  "release_event owner name release =
     \<lparr>ev_Type = ''release'', ev_RepoOwner = owner, ev_RepoName = name,
      ev_Payload = Release
        \<lparr>re_Action = ''published'', re_TagName = rr_TagName release, re_Name = rr_Name release,
          re_Body = rr_Body release, re_Draft = False, re_Prerelease = rr_Prerelease release,
          re_URL = rr_HTMLURL release,
          re_Author = \<lparr>ui_Login = rr_AuthorLogin release, ui_AvatarURL = [], ui_URL = []\<rparr>,
          re_PublishedAt = 0\<rparr>\<rparr>"

fun pollReleases_loop ::
  "Poller \<Rightarrow> string \<Rightarrow> string \<Rightarrow> RepositoryRelease list \<Rightarrow> World \<Rightarrow> World" where
  "pollReleases_loop p owner name [] w = w"
| "pollReleases_loop p owner name (release # rest) w =
     (if rr_Draft release then pollReleases_loop p owner name rest w
      else if Before (rr_PublishedAt release) (p_startTime p)
      then pollReleases_loop p owner name rest w
      else if processed p owner name ''release'' (release_eventID (rr_TagName release)) w
      then pollReleases_loop p owner name rest w
      else pollReleases_loop p owner name rest (emit (release_event owner name release) w))"

definition pollReleases :: "Poller \<Rightarrow> string \<Rightarrow> string \<Rightarrow> World \<Rightarrow> World" where
  "pollReleases p owner name w =
     (case ListReleases (p_client p) owner name 5 of
        Inl err \<Rightarrow> w
      | Inr releases \<Rightarrow> pollReleases_loop p owner name releases w)"

definition issue_event :: "string \<Rightarrow> string \<Rightarrow> string \<Rightarrow> string \<Rightarrow> GhIssue \<Rightarrow> WebhookEvent" where
  "issue_event owner name action state issue =
     \<lparr>ev_Type = ''issues'', ev_RepoOwner = owner, ev_RepoName = name,
      ev_Payload = Issue
        \<lparr>ie_Action = action, ie_Number = gi_Number issue, ie_Title = gi_Title issue,
          ie_Body = gi_Body issue, ie_State = state, ie_URL = gi_HTMLURL issue,
          ie_User = \<lparr>ui_Login = gi_UserLogin issue, ui_AvatarURL = [], ui_URL = []\<rparr>,
          ie_Labels = gi_Labels issue, ie_Assignee = None\<rparr>\<rparr>"

definition notifyIssueClosed :: "Poller \<Rightarrow> string \<Rightarrow> string \<Rightarrow> GhIssue \<Rightarrow> World \<Rightarrow> World" where
  "notifyIssueClosed p owner name issue w =
     (if processed p owner name ''issues'' (issue_closed_eventID (gi_Number issue)) w then w
      else emit (issue_event owner name ''closed'' ''closed'' issue) w)"

fun pollIssues_loop :: "Poller \<Rightarrow> string \<Rightarrow> string \<Rightarrow> GhIssue list \<Rightarrow> World \<Rightarrow> World" where
  "pollIssues_loop p owner name [] w = w"
| "pollIssues_loop p owner name (issue # rest) w =
     (if gi_IsPullRequest issue then pollIssues_loop p owner name rest w
      else if Before (gi_CreatedAt issue) (p_startTime p)
      then pollIssues_loop p owner name rest
             (if gi_State issue = ''closed''
                 \<and> \<not> IsZero (gi_ClosedAt issue) \<and> After (gi_ClosedAt issue) (p_startTime p)
              then notifyIssueClosed p owner name issue w
              else w)
      else if processed p owner name ''issues'' (issue_created_eventID (gi_Number issue)) w
      then pollIssues_loop p owner name rest w
      else pollIssues_loop p owner name rest
             (emit (issue_event owner name ''opened'' (gi_State issue) issue) w))"

definition pollIssues :: "Poller \<Rightarrow> string \<Rightarrow> string \<Rightarrow> World \<Rightarrow> World" where
  "pollIssues p owner name w =
     (case ListByRepo (p_client p) owner name (Some (p_startTime p)) 10 of
        Inl err \<Rightarrow> w
      | Inr issues \<Rightarrow> pollIssues_loop p owner name issues w)"

definition pr_event ::
  "string \<Rightarrow> string \<Rightarrow> string \<Rightarrow> string \<Rightarrow> GhPullRequest \<Rightarrow> WebhookEvent" where
  "pr_event owner name action state pr =
     \<lparr>ev_Type = ''pull_request'', ev_RepoOwner = owner, ev_RepoName = name,
      ev_Payload = PullRequest
        \<lparr>pr_Action = action, pr_Number = gp_Number pr, pr_Title = gp_Title pr,
          pr_Body = gp_Body pr, pr_State = state, pr_URL = gp_HTMLURL pr,
          pr_User = \<lparr>ui_Login = gp_UserLogin pr, ui_AvatarURL = [], ui_URL = []\<rparr>,
          pr_Merged = gp_Merged pr, pr_MergedBy = None,
          pr_Base = \<lparr>bi_Ref = gp_BaseRef pr, bi_SHA = [], bi_Repo = []\<rparr>,
          pr_Head = \<lparr>bi_Ref = gp_HeadRef pr, bi_SHA = [], bi_Repo = []\<rparr>,
          pr_Additions = gp_Additions pr, pr_Deletions = gp_Deletions pr,
          pr_Commits = gp_Commits pr\<rparr>\<rparr>"

definition notifyPRClosed :: "Poller \<Rightarrow> string \<Rightarrow> string \<Rightarrow> GhPullRequest \<Rightarrow> World \<Rightarrow> World" where
  "notifyPRClosed p owner name pr w =
     (let eventID = (if gp_Merged pr then pr_merged_eventID (gp_Number pr)
                     else pr_closed_eventID (gp_Number pr));
          action = (if gp_Merged pr then ''merged'' else ''closed'')
      in if processed p owner name ''pull_request'' eventID w then w
         else emit (pr_event owner name action ''closed'' pr) w)"

fun pollPullRequests_loop ::
  "Poller \<Rightarrow> string \<Rightarrow> string \<Rightarrow> GhPullRequest list \<Rightarrow> World \<Rightarrow> World" where
  "pollPullRequests_loop p owner name [] w = w"
| "pollPullRequests_loop p owner name (pr # rest) w =
     (if Before (gp_CreatedAt pr) (p_startTime p)
      then pollPullRequests_loop p owner name rest
             (if gp_State pr = ''closed''
                 \<and> \<not> IsZero (gp_ClosedAt pr) \<and> After (gp_ClosedAt pr) (p_startTime p)
              then notifyPRClosed p owner name pr w
              else w)
      else if processed p owner name ''pull_request'' (pr_created_eventID (gp_Number pr)) w
      then pollPullRequests_loop p owner name rest w
      else pollPullRequests_loop p owner name rest
             (emit (pr_event owner name ''opened'' (gp_State pr) pr) w))"

definition pollPullRequests :: "Poller \<Rightarrow> string \<Rightarrow> string \<Rightarrow> World \<Rightarrow> World" where
  "pollPullRequests p owner name w =
     (case ListPulls (p_client p) owner name 10 of
        Inl err \<Rightarrow> w
      | Inr prs \<Rightarrow> pollPullRequests_loop p owner name prs w)"

definition pollRepo :: "Poller \<Rightarrow> string \<Rightarrow> string \<Rightarrow> World \<Rightarrow> World outcome" where
  "pollRepo p owner name w =
     (case pollCommits p owner name w of
        Panics \<Rightarrow> Panics
      | Returns w1 \<Rightarrow>
          Returns (pollPullRequests p owner name
                     (pollIssues p owner name (pollReleases p owner name w1))))"

fun pollAll_loop ::
  "Poller \<Rightarrow> (nat \<Rightarrow> bool) \<Rightarrow> nat \<Rightarrow> (string \<times> string) list \<Rightarrow> World \<Rightarrow> World outcome" where
  "pollAll_loop p cancelled i [] w = Returns w"
| "pollAll_loop p cancelled i (repo # rest) w =
     (if cancelled i then Returns w
      else (case pollRepo p (fst repo) (snd repo) w of
              Panics \<Rightarrow> Panics
            | Returns w' \<Rightarrow> pollAll_loop p cancelled (Suc i) rest w'))"

definition pollAllRepos :: "Poller \<Rightarrow> (nat \<Rightarrow> bool) \<Rightarrow> World \<Rightarrow> World outcome" where
  "pollAllRepos p cancelled w =
     (case GetAllSubscribedRepos (p_driver p) (db w) of
        Inl err \<Rightarrow> Returns w
      | Inr repos \<Rightarrow>
          if length repos = 0 then Returns w else pollAll_loop p cancelled 0 repos w)"

subsection \<open>The upstream service\<close>

text \<open>
  Modelled from the spec: the source-repository API client is an external collaborator
  whose code is not part of the repository. Section 4.3 has the poller "list commits
  created since the watch epoch" and fetch "a bounded-size recent window" of each feed:
  a call returns at most \<open>PerPage\<close> items, newest first, and \<open>Since\<close> leaves out what
  is older (by commit date for commits, by last update for issues). A repository the
  service does not know makes every call fail.
\<close>

record RepoSnapshot =
  snap_commits :: "RepositoryCommit list"
  snap_releases :: "RepositoryRelease list"
  snap_issues :: "GhIssue list"
  snap_pulls :: "GhPullRequest list"

definition not_older :: "time option \<Rightarrow> time \<Rightarrow> bool" where
  "not_older since t = (case since of None \<Rightarrow> True | Some s \<Rightarrow> \<not> Before t s)"

definition github_serving :: "(string \<Rightarrow> string \<Rightarrow> RepoSnapshot option) \<Rightarrow> github_client" where
  "github_serving upstream =
     \<lparr>ListCommits = (\<lambda>owner name since perPage.
        case upstream owner name of
          None \<Rightarrow> Inl ApiError
        | Some snap \<Rightarrow>
            Inr (take perPage (filter (\<lambda>c. not_older since (rc_Date c)) (snap_commits snap)))),
      ListReleases = (\<lambda>owner name perPage.
        case upstream owner name of
          None \<Rightarrow> Inl ApiError
        | Some snap \<Rightarrow> Inr (take perPage (snap_releases snap))),
      ListByRepo = (\<lambda>owner name since perPage.
        case upstream owner name of
          None \<Rightarrow> Inl ApiError
        | Some snap \<Rightarrow>
            Inr (take perPage (filter (\<lambda>i. not_older since (gi_UpdatedAt i)) (snap_issues snap)))),
      ListPulls = (\<lambda>owner name perPage.
        case upstream owner name of
          None \<Rightarrow> Inl ApiError
        | Some snap \<Rightarrow> Inr (take perPage (snap_pulls snap)))\<rparr>"

section \<open>The ledger\<close>

lemma IsEventProcessed_mem:
  "\<not> get_fails drv (a, b, c, e) \<Longrightarrow>
   fst (IsEventProcessed drv a b c e d) = ((a, b, c, e) \<in> set (map key_of (event_records d)))"
  by (force simp: IsEventProcessed_def filter_empty_conv)

lemma RecordEvent_subscriptions [simp]:
  "subscriptions (fst (RecordEvent drv a b c e d)) = subscriptions d"
  by (simp add: RecordEvent_def)

lemma RecordEvent_keeps:
  "k \<in> set (map key_of (event_records d)) \<Longrightarrow>
   k \<in> set (map key_of (event_records (fst (RecordEvent drv a b c e d))))"
  by (auto simp: RecordEvent_def)

lemma RecordEvent_records:
  "\<not> exec_fails drv (a, b, c, e) \<Longrightarrow>
   (a, b, c, e) \<in> set (map key_of (event_records (fst (RecordEvent drv a b c e d))))"
  by (auto simp: RecordEvent_def key_of_def)

text \<open>
  C5 (as amended). Committing the same key a second time, at any later clock value,
  leaves the database exactly as the first commit left it and returns \<open>nil\<close>, as the
  first commit did: \<open>RecordEvent\<close> returns only an \<open>error\<close>, so the caller is not told
  whether the row was inserted or already present.
\<close>

theorem RecordEvent_idempotent:
  assumes "\<not> exec_fails drv (a, b, c, e)" and "\<not> exec_fails drv' (a, b, c, e)"
  shows "RecordEvent drv' a b c e (fst (RecordEvent drv a b c e d))
           = (fst (RecordEvent drv a b c e d), None)
         \<and> snd (RecordEvent drv a b c e d) = None"
  using assms by (auto simp: RecordEvent_def key_of_def)

theorem RecordEvent_idempotent_witness:
  "RecordEvent (sound_driver 20) ''acme'' ''widgets'' ''push'' ''abc1234''
      (fst (RecordEvent (sound_driver 10) ''acme'' ''widgets'' ''push'' ''abc1234'' empty_db))
     = (\<lparr>subscriptions = [], event_records =
           [\<lparr>er_RepoOwner = ''acme'', er_RepoName = ''widgets'', er_EventType = ''push'',
             er_EventID = ''abc1234'', er_CreatedAt = 10\<rparr>]\<rparr>, None)"
  using RecordEvent_idempotent [of "sound_driver 10" "''acme''" "''widgets''" "''push''"
      "''abc1234''" "sound_driver 20" empty_db]
  by (simp add: sound_driver_def empty_db_def RecordEvent_def key_of_def)

text \<open>
  The claim as stated fails on its last clause: the inserting call (the key is absent
  before it) and the duplicate call return the same value \<open>nil\<close>.
\<close>

theorem RecordEvent_no_report_counterexample:
  "fst (IsEventProcessed (sound_driver 10) ''acme'' ''widgets'' ''push'' ''abc1234'' empty_db) = False
   \<and> snd (RecordEvent (sound_driver 10) ''acme'' ''widgets'' ''push'' ''abc1234'' empty_db) = None
   \<and> snd (RecordEvent (sound_driver 20) ''acme'' ''widgets'' ''push'' ''abc1234''
        (fst (RecordEvent (sound_driver 10) ''acme'' ''widgets'' ''push'' ''abc1234'' empty_db))) = None"
  by (simp add: sound_driver_def empty_db_def RecordEvent_def IsEventProcessed_def key_of_def)

section \<open>The webhook ingestor: what is emitted and what is answered\<close>

text \<open>The allow-list in the spec's words: which event type and sub-action produce an
  event.\<close>

definition allow_listed :: "string \<Rightarrow> string \<Rightarrow> bool" where
  "allow_listed eventType action =
     (eventType = ''push''
      \<or> (eventType = ''release'' \<and> action = ''published'')
      \<or> (eventType = ''issues'' \<and> action \<in> {''opened'', ''closed'', ''reopened''})
      \<or> (eventType = ''pull_request'' \<and> action \<in> {''opened'', ''closed'', ''reopened''}))"

definition succeeds :: "error + 'a \<Rightarrow> bool" where
  "succeeds r = (case r of Inl err \<Rightarrow> False | Inr x \<Rightarrow> True)"

text \<open>A valid request body: it decodes as the base struct and, for a recognized event
  type, as that type's struct.\<close>

definition valid_body :: "json_decoder \<Rightarrow> string \<Rightarrow> string \<Rightarrow> bool" where
  "valid_body dec eventType body =
     (succeeds (Unmarshal_base dec body)
      \<and> (if eventType = ''push'' then succeeds (Unmarshal_push dec body)
         else if eventType = ''release'' then succeeds (Unmarshal_release dec body)
         else if eventType = ''issues'' then succeeds (Unmarshal_issues dec body)
         else if eventType = ''pull_request'' then succeeds (Unmarshal_pull_request dec body)
         else True))"

text \<open>The \<open>action\<close> field of the decoded payload (a push has none).\<close>

definition action_of :: "json_decoder \<Rightarrow> string \<Rightarrow> string \<Rightarrow> string" where
  "action_of dec eventType body =
     (if eventType = ''release'' then
        (case Unmarshal_release dec body of Inr x \<Rightarrow> rp_Action x | Inl e \<Rightarrow> [])
      else if eventType = ''issues'' then
        (case Unmarshal_issues dec body of Inr x \<Rightarrow> ip_Action x | Inl e \<Rightarrow> [])
      else if eventType = ''pull_request'' then
        (case Unmarshal_pull_request dec body of Inr x \<Rightarrow> prp_Action x | Inl e \<Rightarrow> [])
      else [])"

text \<open>A decoder, a handler with a secret, requests and a channel with no room, for
  concrete runs.\<close>

definition sample_decoder :: json_decoder where
  "sample_decoder =
     \<lparr>Unmarshal_base = (\<lambda>b. if b = ''not json'' then Inl JsonError
                             else Inr \<lparr>bp_OwnerLogin = ''acme'', bp_Name = ''widgets''\<rparr>),
      Unmarshal_push = (\<lambda>b. Inl JsonError),
      Unmarshal_release = (\<lambda>b. Inr
         \<lparr>rp_Action = ''published'', rp_TagName = ''v1.0.0'', rp_Name = ''First'', rp_Body = [],
           rp_Draft = False, rp_Prerelease = False, rp_HTMLURL = ''https://example.org/r'',
           rp_PublishedAt = [],
           rp_Author = \<lparr>ju_Login = ''alice'', ju_AvatarURL = [], ju_HTMLURL = []\<rparr>\<rparr>),
      Unmarshal_issues = (\<lambda>b. Inr
         \<lparr>ip_Action = ''labeled'', ip_Number = 42, ip_Title = ''Crash'', ip_Body = [],
           ip_State = ''open'', ip_HTMLURL = ''https://example.org/i'',
           ip_User = \<lparr>ju_Login = ''bob'', ju_AvatarURL = [], ju_HTMLURL = []\<rparr>,
           ip_Labels = [], ip_Assignee = None\<rparr>),
      Unmarshal_pull_request = (\<lambda>b. Inl JsonError)\<rparr>"

definition sample_release_event :: WebhookEvent where
  "sample_release_event =
     \<lparr>ev_Type = ''release'', ev_RepoOwner = ''acme'', ev_RepoName = ''widgets'',
      ev_Payload = Release
        \<lparr>re_Action = ''published'', re_TagName = ''v1.0.0'', re_Name = ''First'', re_Body = [],
          re_Draft = False, re_Prerelease = False, re_URL = ''https://example.org/r'',
          re_Author = \<lparr>ui_Login = ''alice'', ui_AvatarURL = [], ui_URL = []\<rparr>,
          re_PublishedAt = 0\<rparr>\<rparr>"

definition sample_handler :: WebhookHandler where
  "sample_handler =
     \<lparr>wh_secret = ''s3cret'', wh_json = sample_decoder,
      wh_hex_DecodeString = (\<lambda>s. if s = ''00ff'' then Inr [CHR 0x00, CHR 0xFF] else Inl JsonError),
      wh_hmac_sha256 = (\<lambda>k b. [CHR 0x00, CHR 0xFF])\<rparr>"

definition sample_request :: "string \<Rightarrow> string \<Rightarrow> Request" where
  "sample_request signature eventType =
     \<lparr>req_Method = ''POST'', req_Body = Inr ''{}'',
      req_Header = (\<lambda>k. if k = ''X-Hub-Signature-256'' then signature
                         else if k = ''X-GitHub-Event'' then eventType else [])\<rparr>"

definition full_channel :: EventChannel where
  "full_channel = \<lparr>ch_buf = [], ch_cap = 0\<rparr>"

text \<open>
  C7. For a valid request body, \<open>parseEvent\<close> returns no error and at most one event
  (its result is an optional event), and it returns an event exactly when the event
  type and the payload's action are on the allow-list: \<open>push\<close> with any payload,
  \<open>release\<close>/\<open>published\<close>, \<open>issues\<close> and \<open>pull_request\<close> with \<open>opened\<close>, \<open>closed\<close> or
  \<open>reopened\<close>. Every other action and every other event type gives \<open>(nil, nil)\<close>.
\<close>

theorem parseEvent_allow_list:
  assumes "valid_body dec eventType body"
  shows "\<exists>r. fst (parseEvent dec eventType body) = Inr r
             \<and> (r \<noteq> None) = allow_listed eventType (action_of dec eventType body)
             \<and> (\<forall>ev. r = Some ev \<longrightarrow> ev_Type ev = eventType)"
  using assms
  by (auto simp: succeeds_def valid_body_def parseEvent_def allow_listed_def action_of_def Let_def
           split: sum.splits if_splits)

theorem parseEvent_allow_list_witness:
  "valid_body sample_decoder ''release'' ''{}''
   \<and> fst (parseEvent sample_decoder ''release'' ''{}'') = Inr (Some sample_release_event)
   \<and> valid_body sample_decoder ''issues'' ''{}''
   \<and> fst (parseEvent sample_decoder ''issues'' ''{}'') = Inr None
   \<and> valid_body sample_decoder ''star'' ''{}''
   \<and> fst (parseEvent sample_decoder ''star'' ''{}'') = Inr None"
  using parseEvent_allow_list [of sample_decoder "''release''" "''{}''"]
    parseEvent_allow_list [of sample_decoder "''issues''" "''{}''"]
    parseEvent_allow_list [of sample_decoder "''star''" "''{}''"]
  by (simp add: valid_body_def succeeds_def sample_decoder_def parseEvent_def
        sample_release_event_def user_of_def)

text \<open>Whether the request passes the signature check: no secret is configured, or the
  signature verifies.\<close>

definition signature_ok :: "WebhookHandler \<Rightarrow> Request \<Rightarrow> string \<Rightarrow> bool" where
  "signature_ok h r body =
     (wh_secret h = [] \<or> verifySignature h body (req_Header r ''X-Hub-Signature-256''))"

text \<open>
  C8 (as amended). The checks of \<open>ServeHTTP\<close> run in a fixed order, and the first one
  that fails decides the status: 405 for a method other than POST; then 400 for an
  unreadable body; then 401 when a secret is configured and the signature does not
  verify; then 400 for a missing \<open>X-GitHub-Event\<close> header; then 400 when the payload
  fails to parse; and 200 with body \<open>OK\<close> in every remaining case, whether the parsed
  event is ignored, enqueued, or dropped because the channel is full (the channel is
  then unchanged and the drop is logged as a warning).
\<close>

theorem ServeHTTP_response:
  "(req_Method r \<noteq> ''POST'' \<longrightarrow> resp_Status (fst (ServeHTTP h r ch)) = 405)
   \<and> (req_Method r = ''POST'' \<and> req_Body r = Inl err
        \<longrightarrow> resp_Status (fst (ServeHTTP h r ch)) = 400)
   \<and> (req_Method r = ''POST'' \<and> req_Body r = Inr body \<and> \<not> signature_ok h r body
        \<longrightarrow> resp_Status (fst (ServeHTTP h r ch)) = 401)
   \<and> (req_Method r = ''POST'' \<and> req_Body r = Inr body \<and> signature_ok h r body
        \<and> req_Header r ''X-GitHub-Event'' = []
        \<longrightarrow> resp_Status (fst (ServeHTTP h r ch)) = 400)
   \<and> (req_Method r = ''POST'' \<and> req_Body r = Inr body \<and> signature_ok h r body
        \<and> req_Header r ''X-GitHub-Event'' \<noteq> []
        \<and> fst (parseEvent (wh_json h) (req_Header r ''X-GitHub-Event'') body) = Inl perr
        \<longrightarrow> resp_Status (fst (ServeHTTP h r ch)) = 400)
   \<and> (req_Method r = ''POST'' \<and> req_Body r = Inr body \<and> signature_ok h r body
        \<and> req_Header r ''X-GitHub-Event'' \<noteq> []
        \<and> fst (parseEvent (wh_json h) (req_Header r ''X-GitHub-Event'') body) = Inr res
        \<longrightarrow> fst (ServeHTTP h r ch) = \<lparr>resp_Status = 200, resp_Body = ''OK''\<rparr>
            \<and> (res = None \<longrightarrow> fst (snd (ServeHTTP h r ch)) = ch)
            \<and> (\<forall>event. res = Some event \<longrightarrow>
                 (if length (ch_buf ch) < ch_cap ch
                  then fst (snd (ServeHTTP h r ch)) = ch\<lparr>ch_buf := ch_buf ch @ [event]\<rparr>
                  else fst (snd (ServeHTTP h r ch)) = ch
                       \<and> (Warn, ''Event channel full, dropping event'')
                            \<in> set (snd (snd (ServeHTTP h r ch))))))"
  by (auto simp: ServeHTTP_def signature_ok_def http_Error_def try_send_def Let_def
           split: sum.splits option.splits prod.splits)

theorem ServeHTTP_response_witness:
  "fst (ServeHTTP sample_handler (sample_request ''sha256=00ff'' ''release'') full_channel)
     = \<lparr>resp_Status = 200, resp_Body = ''OK''\<rparr>
   \<and> fst (snd (ServeHTTP sample_handler (sample_request ''sha256=00ff'' ''release'') full_channel))
       = full_channel
   \<and> (Warn, ''Event channel full, dropping event'')
       \<in> set (snd (snd (ServeHTTP sample_handler (sample_request ''sha256=00ff'' ''release'')
                            full_channel)))
   \<and> resp_Status (fst (ServeHTTP sample_handler (sample_request ''sha256=00ff'' ''star'')
                          full_channel)) = 200
   \<and> resp_Status (fst (ServeHTTP sample_handler (sample_request ''sha256=00ff'' [])
                          full_channel)) = 400
   \<and> resp_Status (fst (ServeHTTP sample_handler
                          ((sample_request ''sha256=00ff'' ''release'')\<lparr>req_Method := ''GET''\<rparr>)
                          full_channel)) = 405"
  using ServeHTTP_response [of "sample_request ''sha256=00ff'' ''release''" sample_handler
      full_channel JsonError "''{}''" JsonError "Some sample_release_event"]
  by (simp add: ServeHTTP_def sample_handler_def sample_request_def verifySignature_def
        http_Error_def full_channel_def sample_decoder_def parseEvent_def try_send_def
        user_of_def sample_release_event_def signature_ok_def)

text \<open>
  The claim as stated fails where two of its conditions hold at once: with a secret
  configured, a POST whose signature does not verify and whose \<open>X-GitHub-Event\<close> header
  is missing is answered 401, not 400.
\<close>

theorem ServeHTTP_missing_header_counterexample:
  "req_Method (sample_request ''sha256=beef'' []) = ''POST''
   \<and> req_Header (sample_request ''sha256=beef'' []) ''X-GitHub-Event'' = []
   \<and> resp_Status (fst (ServeHTTP sample_handler (sample_request ''sha256=beef'' []) full_channel))
       = 401"
  by (simp add: ServeHTTP_def sample_handler_def sample_request_def verifySignature_def
        http_Error_def)

section \<open>The notifier: the per-subscription filter\<close>

text \<open>A notifier environment for concrete runs: the store never fails, Telegram accepts
  every message, and the \<open>events\<close> column decodes for two known values only.\<close>

definition quoted :: "string \<Rightarrow> string" where
  "quoted s = [CHR 0x22] @ s @ [CHR 0x22]"

definition issues_only_json :: string where
  "issues_only_json = ''['' @ quoted ''issues'' @ '']''"

definition default_events_json :: string where
  "default_events_json =
     ''['' @ quoted ''push'' @ '','' @ quoted ''release'' @ '','' @ quoted ''issues'' @ '',''
       @ quoted ''pull_request'' @ '']''"

definition sample_env :: "time \<Rightarrow> notifier_env" where
  "sample_env t =
     \<lparr>store_driver = sound_driver t,
      Unmarshal_events = (\<lambda>s. if s = issues_only_json then Inr [''issues'']
                              else if s = default_events_json
                              then Inr [''push'', ''release'', ''issues'', ''pull_request'']
                              else Inl JsonError),
      Send_fails = (\<lambda>chat message. False)\<rparr>"

definition sample_subscription :: "int \<Rightarrow> string \<Rightarrow> Subscription" where
  "sample_subscription chat events =
     \<lparr>sub_ID = 1, sub_ChatID = chat, sub_RepoOwner = ''acme'', sub_RepoName = ''widgets'',
      sub_Events = events, sub_CreatedAt = 1\<rparr>"

text \<open>
  C10. When decoding a subscription's \<open>events\<close> column into a list of event types
  fails, \<open>isEventEnabled\<close> is true for every event type.
\<close>

theorem isEventEnabled_unparsable:
  assumes "Unmarshal_events env (sub_Events sub) = Inl err"
  shows "isEventEnabled env sub eventType"
  using assms by (simp add: isEventEnabled_def)

theorem isEventEnabled_unparsable_witness:
  "Unmarshal_events (sample_env 0) (sub_Events (sample_subscription 7 ''push,release'')) = Inl JsonError
   \<and> isEventEnabled (sample_env 0) (sample_subscription 7 ''push,release'') ''pull_request''"
  using isEventEnabled_unparsable [of "sample_env 0" "sample_subscription 7 ''push,release''"
      JsonError "''pull_request''"]
  by (simp add: sample_env_def sample_subscription_def issues_only_json_def
        default_events_json_def quoted_def)

section \<open>The poller: initialization\<close>

text \<open>The keys in the ledger, and the number of its rows.\<close>

definition ledger :: "World \<Rightarrow> dedup_key set" where
  "ledger w = set (map key_of (event_records (db w)))"

lemma emit_db [simp]: "db (emit event w) = db w"
  by (simp add: emit_def)

lemma processed_emit [simp]:
  "processed p owner name ty i (emit event w) = processed p owner name ty i w"
  by (simp add: processed_def)

lemma record_event_eventsCh [simp]:
  "eventsCh (record_event p owner name ty i w) = eventsCh w"
  by (simp add: record_event_def)

lemma record_commits_eventsCh [simp]:
  "eventsCh (record_commits p owner name commits w) = eventsCh w"
  by (induction commits arbitrary: w) simp_all

lemma record_releases_eventsCh [simp]:
  "eventsCh (record_releases p owner name releases w) = eventsCh w"
  by (induction releases arbitrary: w) simp_all

lemma record_issues_eventsCh [simp]:
  "eventsCh (record_issues p owner name issues w) = eventsCh w"
  by (induction issues arbitrary: w) (simp_all add: record_issue_def Let_def)

lemma record_prs_eventsCh [simp]:
  "eventsCh (record_prs p owner name prs w) = eventsCh w"
  by (induction prs arbitrary: w) (simp_all add: record_pr_def Let_def)

lemma recordExistingEvents_eventsCh [simp]:
  "eventsCh (recordExistingEvents p owner name w) = eventsCh w"
  by (simp add: recordExistingEvents_def Let_def split: sum.splits)

lemma initialize_loop_eventsCh [simp]:
  "eventsCh (initialize_loop p cancelled i repos w) = eventsCh w"
  by (induction repos arbitrary: i w) simp_all

lemma initializeRepos_eventsCh:
  "eventsCh (initializeRepos p cancelled w) = eventsCh w"
  by (simp add: initializeRepos_def split: sum.splits)

lemma ledger_record_event_mono: "ledger w \<subseteq> ledger (record_event p owner name ty i w)"
  by (auto simp: ledger_def record_event_def RecordEvent_def)

lemma ledger_record_event_mem:
  "\<not> exec_fails (p_driver p) (owner, name, ty, i) \<Longrightarrow> (owner, name, ty, i) \<in> ledger (record_event p owner name ty i w)"
  by (auto simp: ledger_def record_event_def RecordEvent_def key_of_def)

lemma ledger_record_commits_mono: "ledger w \<subseteq> ledger (record_commits p owner name commits w)"
proof (induction commits arbitrary: w)
  case Nil show ?case by simp
next
  case (Cons c cs)
  show ?case using Cons[of "record_event p owner name ''push'' (rc_SHA c) w"] Cons[of w]
      ledger_record_event_mono[of w p owner name "''push''" "rc_SHA c"]
    by auto
qed

lemma ledger_record_releases_mono: "ledger w \<subseteq> ledger (record_releases p owner name rs w)"
proof (induction rs arbitrary: w)
  case Nil show ?case by simp
next
  case (Cons r rs)
  show ?case using Cons[of "record_event p owner name ''release'' (release_eventID (rr_TagName r)) w"] Cons[of w]
      ledger_record_event_mono[of w p owner name "''release''" "release_eventID (rr_TagName r)"]
    by auto
qed

lemma ledger_record_issue_mono: "ledger w \<subseteq> ledger (record_issue p owner name issue w)"
  using ledger_record_event_mono
  by (simp add: record_issue_def Let_def) (meson order_trans)

lemma ledger_record_issues_mono: "ledger w \<subseteq> ledger (record_issues p owner name issues w)"
proof (induction issues arbitrary: w)
  case Nil show ?case by simp
next
  case (Cons x xs)
  show ?case using Cons[of "record_issue p owner name x w"] ledger_record_issue_mono[of w p owner name x]
    by auto
qed

lemma ledger_record_pr_mono: "ledger w \<subseteq> ledger (record_pr p owner name pr w)"
  using ledger_record_event_mono
  by (simp add: record_pr_def Let_def) (meson order_trans)

lemma ledger_record_prs_mono: "ledger w \<subseteq> ledger (record_prs p owner name prs w)"
proof (induction prs arbitrary: w)
  case Nil show ?case by simp
next
  case (Cons x xs)
  show ?case using Cons[of "record_pr p owner name x w"] ledger_record_pr_mono[of w p owner name x]
    by auto
qed


lemma record_commits_seeds:
  assumes "c \<in> set commits" and "rc_SHA c \<noteq> []"
    and "\<not> exec_fails (p_driver p) (owner, name, ''push'', rc_SHA c)"
  shows "(owner, name, ''push'', rc_SHA c) \<in> ledger (record_commits p owner name commits w)"
  using assms(1)
proof (induction commits arbitrary: w)
  case Nil then show ?case by simp
next
  case (Cons x xs)
  show ?case
  proof (cases "c = x")
    case True
    have "(owner, name, ''push'', rc_SHA c) \<in> ledger (record_event p owner name ''push'' (rc_SHA c) w)"
      using assms(3) by (rule ledger_record_event_mem)
    then show ?thesis
      using True assms(2) ledger_record_commits_mono[of "record_event p owner name ''push'' (rc_SHA c) w" p owner name xs]
      by auto
  next
    case False
    then have "c \<in> set xs" using Cons.prems by simp
    then show ?thesis using Cons.IH by simp
  qed
qed

lemma record_releases_seeds:
  assumes "r \<in> set releases" and "\<not> rr_Draft r"
    and "\<not> exec_fails (p_driver p) (owner, name, ''release'', release_eventID (rr_TagName r))"
  shows "(owner, name, ''release'', release_eventID (rr_TagName r))
           \<in> ledger (record_releases p owner name releases w)"
  using assms(1)
proof (induction releases arbitrary: w)
  case Nil then show ?case by simp
next
  case (Cons x xs)
  show ?case
  proof (cases "r = x")
    case True
    have "(owner, name, ''release'', release_eventID (rr_TagName r))
            \<in> ledger (record_event p owner name ''release'' (release_eventID (rr_TagName r)) w)"
      using assms(3) by (rule ledger_record_event_mem)
    then show ?thesis
      using True assms(2)
        ledger_record_releases_mono[of "record_event p owner name ''release'' (release_eventID (rr_TagName r)) w" p owner name xs]
      by auto
  next
    case False
    then have "r \<in> set xs" using Cons.prems by simp
    then show ?thesis using Cons.IH by simp
  qed
qed

lemma record_issue_seeds:
  assumes "\<not> gi_IsPullRequest issue"
    and "\<not> exec_fails (p_driver p) (owner, name, ''issues'', issue_created_eventID (gi_Number issue))"
    and "\<not> exec_fails (p_driver p) (owner, name, ''issues'', issue_closed_eventID (gi_Number issue))"
  shows "(owner, name, ''issues'', issue_created_eventID (gi_Number issue))
           \<in> ledger (record_issue p owner name issue w)
         \<and> (gi_State issue = ''closed'' \<longrightarrow>
              (owner, name, ''issues'', issue_closed_eventID (gi_Number issue))
                \<in> ledger (record_issue p owner name issue w))"
  using assms ledger_record_event_mem[of p owner name "''issues''" "issue_created_eventID (gi_Number issue)" w]
    ledger_record_event_mem[of p owner name "''issues''" "issue_closed_eventID (gi_Number issue)"
       "record_event p owner name ''issues'' (issue_created_eventID (gi_Number issue)) w"]
    ledger_record_event_mono[of "record_event p owner name ''issues'' (issue_created_eventID (gi_Number issue)) w" p owner name "''issues''" "issue_closed_eventID (gi_Number issue)"]
  by (auto simp: record_issue_def Let_def)

lemma record_issues_seeds:
  assumes "issue \<in> set issues" and "\<not> gi_IsPullRequest issue"
    and "\<not> exec_fails (p_driver p) (owner, name, ''issues'', issue_created_eventID (gi_Number issue))"
    and "\<not> exec_fails (p_driver p) (owner, name, ''issues'', issue_closed_eventID (gi_Number issue))"
  shows "(owner, name, ''issues'', issue_created_eventID (gi_Number issue))
           \<in> ledger (record_issues p owner name issues w)
         \<and> (gi_State issue = ''closed'' \<longrightarrow>
              (owner, name, ''issues'', issue_closed_eventID (gi_Number issue))
                \<in> ledger (record_issues p owner name issues w))"
  using assms(1)
proof (induction issues arbitrary: w)
  case Nil then show ?case by simp
next
  case (Cons x xs)
  show ?case
  proof (cases "issue = x")
    case True
    then show ?thesis
      using record_issue_seeds[OF assms(2,3,4), of w]
        ledger_record_issues_mono[of "record_issue p owner name issue w" p owner name xs]
      by auto
  next
    case False
    then have "issue \<in> set xs" using Cons.prems by simp
    then show ?thesis using Cons.IH by simp
  qed
qed

definition pr_terminal_eventID :: "GhPullRequest \<Rightarrow> string" where
  "pr_terminal_eventID pr =
     (if gp_Merged pr then pr_merged_eventID (gp_Number pr) else pr_closed_eventID (gp_Number pr))"

lemma record_pr_seeds:
  assumes "\<not> exec_fails (p_driver p) (owner, name, ''pull_request'', pr_created_eventID (gp_Number pr))"
    and "\<not> exec_fails (p_driver p) (owner, name, ''pull_request'', pr_terminal_eventID pr)"
  shows "(owner, name, ''pull_request'', pr_created_eventID (gp_Number pr))
           \<in> ledger (record_pr p owner name pr w)
         \<and> (gp_State pr = ''closed'' \<longrightarrow>
              (owner, name, ''pull_request'', pr_terminal_eventID pr)
                \<in> ledger (record_pr p owner name pr w))"
  using assms ledger_record_event_mem[of p owner name "''pull_request''" "pr_created_eventID (gp_Number pr)" w]
    ledger_record_event_mem[of p owner name "''pull_request''" "pr_terminal_eventID pr"
       "record_event p owner name ''pull_request'' (pr_created_eventID (gp_Number pr)) w"]
    ledger_record_event_mono[of "record_event p owner name ''pull_request'' (pr_created_eventID (gp_Number pr)) w" p owner name "''pull_request''" "pr_terminal_eventID pr"]
  by (auto simp: record_pr_def Let_def pr_terminal_eventID_def)

lemma record_prs_seeds:
  assumes "pr \<in> set prs"
    and "\<not> exec_fails (p_driver p) (owner, name, ''pull_request'', pr_created_eventID (gp_Number pr))"
    and "\<not> exec_fails (p_driver p) (owner, name, ''pull_request'', pr_terminal_eventID pr)"
  shows "(owner, name, ''pull_request'', pr_created_eventID (gp_Number pr))
           \<in> ledger (record_prs p owner name prs w)
         \<and> (gp_State pr = ''closed'' \<longrightarrow>
              (owner, name, ''pull_request'', pr_terminal_eventID pr)
                \<in> ledger (record_prs p owner name prs w))"
  using assms(1)
proof (induction prs arbitrary: w)
  case Nil then show ?case by simp
next
  case (Cons x xs)
  show ?case
  proof (cases "pr = x")
    case True
    then show ?thesis
      using record_pr_seeds[OF assms(2,3), of w]
        ledger_record_prs_mono[of "record_pr p owner name pr w" p owner name xs]
      by auto
  next
    case False
    then have "pr \<in> set xs" using Cons.prems by simp
    then show ?thesis using Cons.IH by simp
  qed
qed

text \<open>\<open>recordExistingEvents\<close> as the composition of its four stages.\<close>

lemma recordExistingEvents_stages:
  "recordExistingEvents p owner name w =
     (case ListPulls (p_client p) owner name 20 of Inl err \<Rightarrow> (\<lambda>w. w) | Inr prs \<Rightarrow> record_prs p owner name prs)
     ((case ListByRepo (p_client p) owner name None 20 of Inl err \<Rightarrow> (\<lambda>w. w) | Inr issues \<Rightarrow> record_issues p owner name issues)
     ((case ListReleases (p_client p) owner name 5 of Inl err \<Rightarrow> (\<lambda>w. w) | Inr releases \<Rightarrow> record_releases p owner name releases)
     ((case ListCommits (p_client p) owner name None 10 of Inl err \<Rightarrow> (\<lambda>w. w) | Inr commits \<Rightarrow> record_commits p owner name commits) w)))"
  by (simp add: recordExistingEvents_def Let_def split: sum.splits)

lemma stage_prs_mono:
  "ledger w \<subseteq> ledger ((case ListPulls (p_client p) owner name 20 of Inl err \<Rightarrow> (\<lambda>w. w) | Inr prs \<Rightarrow> record_prs p owner name prs) w)"
  using ledger_record_prs_mono by (simp split: sum.splits)

lemma stage_issues_mono:
  "ledger w \<subseteq> ledger ((case ListByRepo (p_client p) owner name None 20 of Inl err \<Rightarrow> (\<lambda>w. w) | Inr issues \<Rightarrow> record_issues p owner name issues) w)"
  using ledger_record_issues_mono by (simp split: sum.splits)

lemma stage_releases_mono:
  "ledger w \<subseteq> ledger ((case ListReleases (p_client p) owner name 5 of Inl err \<Rightarrow> (\<lambda>w. w) | Inr releases \<Rightarrow> record_releases p owner name releases) w)"
  using ledger_record_releases_mono by (simp split: sum.splits)

lemma stage_commits_mono:
  "ledger w \<subseteq> ledger ((case ListCommits (p_client p) owner name None 10 of Inl err \<Rightarrow> (\<lambda>w. w) | Inr commits \<Rightarrow> record_commits p owner name commits) w)"
  using ledger_record_commits_mono by (simp split: sum.splits)

lemma recordExistingEvents_ledger_mono:
  "ledger w \<subseteq> ledger (recordExistingEvents p owner name w)"
  unfolding recordExistingEvents_stages
  by (rule order_trans[OF stage_commits_mono], rule order_trans[OF stage_releases_mono],
      rule order_trans[OF stage_issues_mono], rule stage_prs_mono)

lemma recordExistingEvents_seeds_commit:
  assumes "ListCommits (p_client p) owner name None 10 = Inr commits"
    and "c \<in> set commits" and "rc_SHA c \<noteq> []"
    and "\<not> exec_fails (p_driver p) (owner, name, ''push'', rc_SHA c)"
  shows "(owner, name, ''push'', rc_SHA c) \<in> ledger (recordExistingEvents p owner name w)"
proof -
  have "(owner, name, ''push'', rc_SHA c) \<in> ledger (record_commits p owner name commits w)"
    using assms(2,3,4) by (rule record_commits_seeds)
  then have "(owner, name, ''push'', rc_SHA c) \<in> ledger ((case ListCommits (p_client p) owner name None 10 of Inl err \<Rightarrow> (\<lambda>w. w) | Inr commits \<Rightarrow> record_commits p owner name commits) w)"
    using assms(1) by simp
  then show ?thesis
    unfolding recordExistingEvents_stages
    by (intro subsetD[OF stage_prs_mono] subsetD[OF stage_issues_mono] subsetD[OF stage_releases_mono])
qed

lemma recordExistingEvents_seeds_release:
  assumes "ListReleases (p_client p) owner name 5 = Inr releases"
    and "r \<in> set releases" and "\<not> rr_Draft r"
    and "\<not> exec_fails (p_driver p) (owner, name, ''release'', release_eventID (rr_TagName r))"
  shows "(owner, name, ''release'', release_eventID (rr_TagName r))
           \<in> ledger (recordExistingEvents p owner name w)"
proof -
  have "\<And>w. (owner, name, ''release'', release_eventID (rr_TagName r)) \<in> ledger (record_releases p owner name releases w)"
    using assms(2,3,4) by (rule record_releases_seeds)
  then have "\<And>w. (owner, name, ''release'', release_eventID (rr_TagName r)) \<in> ledger ((case ListReleases (p_client p) owner name 5 of Inl err \<Rightarrow> (\<lambda>w. w) | Inr releases \<Rightarrow> record_releases p owner name releases) w)"
    using assms(1) by simp
  then show ?thesis
    unfolding recordExistingEvents_stages
    by (intro subsetD[OF stage_prs_mono] subsetD[OF stage_issues_mono])
qed

lemma recordExistingEvents_seeds_issue:
  assumes "ListByRepo (p_client p) owner name None 20 = Inr issues"
    and "issue \<in> set issues" and "\<not> gi_IsPullRequest issue"
    and "\<not> exec_fails (p_driver p) (owner, name, ''issues'', issue_created_eventID (gi_Number issue))"
    and "\<not> exec_fails (p_driver p) (owner, name, ''issues'', issue_closed_eventID (gi_Number issue))"
  shows "(owner, name, ''issues'', issue_created_eventID (gi_Number issue))
           \<in> ledger (recordExistingEvents p owner name w)
         \<and> (gi_State issue = ''closed'' \<longrightarrow>
              (owner, name, ''issues'', issue_closed_eventID (gi_Number issue))
                \<in> ledger (recordExistingEvents p owner name w))"
proof -
  have "\<And>w. (owner, name, ''issues'', issue_created_eventID (gi_Number issue))
           \<in> ledger (record_issues p owner name issues w)
         \<and> (gi_State issue = ''closed'' \<longrightarrow>
              (owner, name, ''issues'', issue_closed_eventID (gi_Number issue))
                \<in> ledger (record_issues p owner name issues w))"
    using assms(2,3,4,5) by (rule record_issues_seeds)
  then have "\<And>w. (owner, name, ''issues'', issue_created_eventID (gi_Number issue))
           \<in> ledger ((case ListByRepo (p_client p) owner name None 20 of Inl err \<Rightarrow> (\<lambda>w. w) | Inr issues \<Rightarrow> record_issues p owner name issues) w)
         \<and> (gi_State issue = ''closed'' \<longrightarrow>
              (owner, name, ''issues'', issue_closed_eventID (gi_Number issue))
                \<in> ledger ((case ListByRepo (p_client p) owner name None 20 of Inl err \<Rightarrow> (\<lambda>w. w) | Inr issues \<Rightarrow> record_issues p owner name issues) w))"
    using assms(1) by simp
  then show ?thesis
    unfolding recordExistingEvents_stages
    using subsetD[OF stage_prs_mono] by blast
qed

lemma recordExistingEvents_seeds_pr:
  assumes "ListPulls (p_client p) owner name 20 = Inr prs"
    and "pr \<in> set prs"
    and "\<not> exec_fails (p_driver p) (owner, name, ''pull_request'', pr_created_eventID (gp_Number pr))"
    and "\<not> exec_fails (p_driver p) (owner, name, ''pull_request'', pr_terminal_eventID pr)"
  shows "(owner, name, ''pull_request'', pr_created_eventID (gp_Number pr))
           \<in> ledger (recordExistingEvents p owner name w)
         \<and> (gp_State pr = ''closed'' \<longrightarrow>
              (owner, name, ''pull_request'', pr_terminal_eventID pr)
                \<in> ledger (recordExistingEvents p owner name w))"
  unfolding recordExistingEvents_stages
  using assms(1) record_prs_seeds[OF assms(2,3,4)]
  by simp

definition rows :: "World \<Rightarrow> nat" where
  "rows w = length (event_records (db w))"

lemma rows_record_event: "rows (record_event p owner name ty i w) \<le> Suc (rows w)"
  by (simp add: rows_def record_event_def RecordEvent_def)

lemma rows_record_commits: "rows (record_commits p owner name commits w) \<le> rows w + length commits"
proof (induction commits arbitrary: w)
  case Nil show ?case by simp
next
  case (Cons c cs)
  show ?case
    using Cons[of "record_event p owner name ''push'' (rc_SHA c) w"] Cons[of w]
      rows_record_event[of p owner name "''push''" "rc_SHA c" w]
    by auto
qed

lemma rows_record_releases: "rows (record_releases p owner name rs w) \<le> rows w + length rs"
proof (induction rs arbitrary: w)
  case Nil show ?case by simp
next
  case (Cons r rs)
  show ?case
    using Cons[of "record_event p owner name ''release'' (release_eventID (rr_TagName r)) w"] Cons[of w]
      rows_record_event[of p owner name "''release''" "release_eventID (rr_TagName r)" w]
    by auto
qed

lemma rows_record_issue: "rows (record_issue p owner name issue w) \<le> rows w + 2"
  using rows_record_event[of p owner name "''issues''" "issue_created_eventID (gi_Number issue)" w]
    rows_record_event[of p owner name "''issues''" "issue_closed_eventID (gi_Number issue)"
      "record_event p owner name ''issues'' (issue_created_eventID (gi_Number issue)) w"]
  by (simp add: record_issue_def Let_def)

lemma rows_record_issues: "rows (record_issues p owner name issues w) \<le> rows w + 2 * length issues"
proof (induction issues arbitrary: w)
  case Nil show ?case by simp
next
  case (Cons x xs)
  show ?case
    using Cons[of "record_issue p owner name x w"] rows_record_issue[of p owner name x w]
    by simp
qed

lemma rows_record_pr: "rows (record_pr p owner name pr w) \<le> rows w + 2"
  using rows_record_event[of p owner name "''pull_request''" "pr_created_eventID (gp_Number pr)" w]
    rows_record_event[of p owner name "''pull_request''" "pr_terminal_eventID pr"
      "record_event p owner name ''pull_request'' (pr_created_eventID (gp_Number pr)) w"]
  by (simp add: record_pr_def Let_def pr_terminal_eventID_def)

lemma rows_record_prs: "rows (record_prs p owner name prs w) \<le> rows w + 2 * length prs"
proof (induction prs arbitrary: w)
  case Nil show ?case by simp
next
  case (Cons x xs)
  show ?case
    using Cons[of "record_pr p owner name x w"] rows_record_pr[of p owner name x w]
    by simp
qed

lemma recordExistingEvents_bounded:
  assumes "p_client p = github_serving upstream"
  shows "rows (recordExistingEvents p owner name w) \<le> rows w + 95"
proof (cases "upstream owner name")
  case None
  then show ?thesis
    by (simp add: recordExistingEvents_def assms github_serving_def)
next
  case (Some snap)
  define cs where "cs = take 10 (filter (\<lambda>c. not_older None (rc_Date c)) (snap_commits snap))"
  define rs where "rs = take 5 (snap_releases snap)"
  define iss where "iss = take 20 (filter (\<lambda>i. not_older None (gi_UpdatedAt i)) (snap_issues snap))"
  define ps where "ps = take 20 (snap_pulls snap)"
  define w1 where "w1 = record_commits p owner name cs w"
  define w2 where "w2 = record_releases p owner name rs w1"
  define w3 where "w3 = record_issues p owner name iss w2"
  have eq: "recordExistingEvents p owner name w = record_prs p owner name ps w3"
    by (simp add: recordExistingEvents_def assms github_serving_def Some Let_def
          cs_def rs_def iss_def ps_def w1_def w2_def w3_def)
  have "rows w1 \<le> rows w + 10"
    using rows_record_commits[of p owner name cs w] by (simp add: w1_def cs_def)
  moreover have "rows w2 \<le> rows w1 + 5"
    using rows_record_releases[of p owner name rs w1] by (simp add: w2_def rs_def)
  moreover have "rows w3 \<le> rows w2 + 40"
    using rows_record_issues[of p owner name iss w2] by (simp add: w3_def iss_def)
  moreover have "rows (record_prs p owner name ps w3) \<le> rows w3 + 40"
    using rows_record_prs[of p owner name ps w3] by (simp add: ps_def)
  ultimately show ?thesis by (simp add: eq)
qed

text \<open>
  A repository for concrete runs: \<open>acme/widgets\<close>, watched from instant 100, with one
  subscriber. Its history before the watch: one commit, one release, pull request 7
  (merged) and issue 42, whose state and closing time vary between runs.
\<close>

definition old_commit :: RepositoryCommit where
  "old_commit =
     \<lparr>rc_SHA = ''0123456789abcdef0123456789abcdef01234567'', rc_AuthorLogin = ''alice'',
      rc_Message = ''Initial commit'', rc_CommitAuthorName = ''Alice'',
      rc_HTMLURL = ''https://example.org/c/0123456'', rc_Date = 20\<rparr>"

definition sample_release :: RepositoryRelease where
  "sample_release =
     \<lparr>rr_TagName = ''v1.0.0'', rr_Name = ''First'', rr_Body = [], rr_Draft = False,
      rr_Prerelease = False, rr_HTMLURL = ''https://example.org/r'', rr_AuthorLogin = ''alice'',
      rr_PublishedAt = 30\<rparr>"

definition pr7 :: GhPullRequest where
  "pr7 =
     \<lparr>gp_Number = 7, gp_Title = ''Add gears'', gp_Body = [], gp_State = ''closed'',
      gp_HTMLURL = ''https://example.org/p/7'', gp_Merged = True, gp_UserLogin = ''carol'',
      gp_Additions = 10, gp_Deletions = 2, gp_Commits = 1, gp_BaseRef = ''main'',
      gp_HeadRef = ''gears'', gp_CreatedAt = 40, gp_ClosedAt = 60\<rparr>"

definition issue42 :: "string \<Rightarrow> time \<Rightarrow> GhIssue" where
  "issue42 state closedAt =
     \<lparr>gi_Number = 42, gi_Title = ''Crash on start'', gi_Body = [], gi_State = state,
      gi_HTMLURL = ''https://example.org/i/42'', gi_UserLogin = ''bob'', gi_Labels = [],
      gi_CreatedAt = 50, gi_ClosedAt = closedAt, gi_UpdatedAt = max 50 closedAt,
      gi_IsPullRequest = False\<rparr>"

definition widgets_snapshot :: "GhIssue list \<Rightarrow> RepoSnapshot" where
  "widgets_snapshot issues =
     \<lparr>snap_commits = [old_commit], snap_releases = [sample_release], snap_issues = issues,
      snap_pulls = [pr7]\<rparr>"

definition widgets_upstream :: "GhIssue list \<Rightarrow> string \<Rightarrow> string \<Rightarrow> RepoSnapshot option" where
  "widgets_upstream issues owner name =
     (if owner = ''acme'' \<and> name = ''widgets'' then Some (widgets_snapshot issues) else None)"

definition widgets_poller :: "GhIssue list \<Rightarrow> Poller" where
  "widgets_poller issues =
     \<lparr>p_client = github_serving (widgets_upstream issues), p_driver = sound_driver 100,
      p_startTime = 100\<rparr>"

definition world0 :: World where
  "world0 =
     \<lparr>db = \<lparr>subscriptions = [sample_subscription 7 default_events_json], event_records = []\<rparr>,
      eventsCh = \<lparr>ch_buf = [], ch_cap = 100\<rparr>\<rparr>"

text \<open>
  C9. Initialization never touches the event channel, neither for one repository
  (\<open>recordExistingEvents\<close>) nor for all of them (\<open>initializeRepos\<close>); it only adds keys
  to the ledger. Of what the four list calls return (at most 10 commits, 5 releases,
  20 issues and 20 pull requests are asked for), every commit with a SHA, every
  release that is not a draft, every issue that is not a pull request and every pull
  request gets its key recorded, provided the insert itself succeeds (its error is
  dropped). An issue whose state is \<open>closed\<close> also gets \<open>issue-N-closed\<close>; a pull
  request whose state is \<open>closed\<close> also gets \<open>pr-N-merged\<close> when merged and
  \<open>pr-N-closed\<close> otherwise. Against a service that honours \<open>PerPage\<close>, one repository
  adds at most 95 rows.
\<close>

theorem initialization_seeds_without_emitting:
  "eventsCh (initializeRepos p cancelled w) = eventsCh w
   \<and> eventsCh (recordExistingEvents p owner name w) = eventsCh w
   \<and> ledger w \<subseteq> ledger (recordExistingEvents p owner name w)
   \<and> (ListCommits (p_client p) owner name None 10 = Inr commits \<and> c \<in> set commits
        \<and> rc_SHA c \<noteq> []
        \<and> \<not> exec_fails (p_driver p) (owner, name, ''push'', rc_SHA c)
      \<longrightarrow> (owner, name, ''push'', rc_SHA c) \<in> ledger (recordExistingEvents p owner name w))
   \<and> (ListReleases (p_client p) owner name 5 = Inr releases \<and> r \<in> set releases
        \<and> \<not> rr_Draft r
        \<and> \<not> exec_fails (p_driver p) (owner, name, ''release'', release_eventID (rr_TagName r))
      \<longrightarrow> (owner, name, ''release'', release_eventID (rr_TagName r))
            \<in> ledger (recordExistingEvents p owner name w))
   \<and> (ListByRepo (p_client p) owner name None 20 = Inr issues \<and> issue \<in> set issues
        \<and> \<not> gi_IsPullRequest issue
        \<and> \<not> exec_fails (p_driver p) (owner, name, ''issues'', issue_created_eventID (gi_Number issue))
        \<and> \<not> exec_fails (p_driver p) (owner, name, ''issues'', issue_closed_eventID (gi_Number issue))
      \<longrightarrow> (owner, name, ''issues'', issue_created_eventID (gi_Number issue))
              \<in> ledger (recordExistingEvents p owner name w)
          \<and> (gi_State issue = ''closed'' \<longrightarrow>
               (owner, name, ''issues'', issue_closed_eventID (gi_Number issue))
                 \<in> ledger (recordExistingEvents p owner name w)))
   \<and> (ListPulls (p_client p) owner name 20 = Inr prs \<and> pr \<in> set prs
        \<and> \<not> exec_fails (p_driver p) (owner, name, ''pull_request'', pr_created_eventID (gp_Number pr))
        \<and> \<not> exec_fails (p_driver p) (owner, name, ''pull_request'', pr_terminal_eventID pr)
      \<longrightarrow> (owner, name, ''pull_request'', pr_created_eventID (gp_Number pr))
              \<in> ledger (recordExistingEvents p owner name w)
          \<and> (gp_State pr = ''closed'' \<longrightarrow>
               (owner, name, ''pull_request'', pr_terminal_eventID pr)
                 \<in> ledger (recordExistingEvents p owner name w)))
   \<and> (p_client p = github_serving upstream
      \<longrightarrow> rows (recordExistingEvents p owner name w) \<le> rows w + 95)"
  using initializeRepos_eventsCh [of p cancelled w]
    recordExistingEvents_eventsCh [of p owner name w]
    recordExistingEvents_ledger_mono [of w p owner name]
    recordExistingEvents_seeds_commit [of p owner name commits c w]
    recordExistingEvents_seeds_release [of p owner name releases r w]
    recordExistingEvents_seeds_issue [of p owner name issues issue w]
    recordExistingEvents_seeds_pr [of p owner name prs pr w]
    recordExistingEvents_bounded [of p upstream owner name w]
  by blast

theorem initialization_seeds_without_emitting_witness:
  "eventsCh (initializeRepos (widgets_poller [issue42 ''closed'' 60]) (\<lambda>i. False) world0)
     = \<lparr>ch_buf = [], ch_cap = 100\<rparr>
   \<and> map er_EventID (event_records (db
         (initializeRepos (widgets_poller [issue42 ''closed'' 60]) (\<lambda>i. False) world0)))
       = [''0123456789abcdef0123456789abcdef01234567'', ''release-v1.0.0'',
          ''issue-42-created'', ''issue-42-closed'', ''pr-7-created'', ''pr-7-merged'']
   \<and> {(''acme'', ''widgets'', ''push'', ''0123456789abcdef0123456789abcdef01234567''),
       (''acme'', ''widgets'', ''release'', ''release-v1.0.0''),
       (''acme'', ''widgets'', ''issues'', ''issue-42-created''),
       (''acme'', ''widgets'', ''issues'', ''issue-42-closed''),
       (''acme'', ''widgets'', ''pull_request'', ''pr-7-created''),
       (''acme'', ''widgets'', ''pull_request'', ''pr-7-merged'')}
       \<subseteq> ledger (recordExistingEvents (widgets_poller [issue42 ''closed'' 60])
                    ''acme'' ''widgets'' world0)
   \<and> rows (recordExistingEvents (widgets_poller [issue42 ''closed'' 60]) ''acme'' ''widgets'' world0)
       \<le> 95"
proof -
  let ?p = "widgets_poller [issue42 ''closed'' 60]"
  let ?i = "issue42 ''closed'' 60"
  note inst = initialization_seeds_without_emitting [of ?p "\<lambda>i. False" world0 "''acme''"
      "''widgets''" "[old_commit]" old_commit "[sample_release]" sample_release "[?i]" ?i
      "[pr7]" pr7 "widgets_upstream [?i]"]
  have a: "eventsCh (initializeRepos ?p (\<lambda>i. False) world0) = \<lparr>ch_buf = [], ch_cap = 100\<rparr>"
    using inst by (simp add: world0_def)
  have b: "map er_EventID (event_records (db (initializeRepos ?p (\<lambda>i. False) world0)))
       = [''0123456789abcdef0123456789abcdef01234567'', ''release-v1.0.0'',
          ''issue-42-created'', ''issue-42-closed'', ''pr-7-created'', ''pr-7-merged'']"
    by code_simp
  have calls: "ListCommits (p_client ?p) ''acme'' ''widgets'' None 10 = Inr [old_commit]"
    "ListReleases (p_client ?p) ''acme'' ''widgets'' 5 = Inr [sample_release]"
    "ListByRepo (p_client ?p) ''acme'' ''widgets'' None 20 = Inr [?i]"
    "ListPulls (p_client ?p) ''acme'' ''widgets'' 20 = Inr [pr7]"
    "p_client ?p = github_serving (widgets_upstream [?i])"
    by (simp_all add: widgets_poller_def github_serving_def widgets_upstream_def
          widgets_snapshot_def not_older_def)
  have items: "rc_SHA old_commit \<noteq> []" "\<not> rr_Draft sample_release" "\<not> gi_IsPullRequest ?i"
    "gi_State ?i = ''closed''" "gp_State pr7 = ''closed''"
    by (simp_all add: old_commit_def sample_release_def issue42_def pr7_def)
  have sound: "\<And>k. \<not> exec_fails (p_driver ?p) k"
    by (simp add: widgets_poller_def sound_driver_def)
  have ids: "rc_SHA old_commit = ''0123456789abcdef0123456789abcdef01234567''"
    "release_eventID (rr_TagName sample_release) = ''release-v1.0.0''"
    "issue_created_eventID (gi_Number ?i) = ''issue-42-created''"
    "issue_closed_eventID (gi_Number ?i) = ''issue-42-closed''"
    "pr_created_eventID (gp_Number pr7) = ''pr-7-created''"
    "pr_terminal_eventID pr7 = ''pr-7-merged''"
    by code_simp+
  have c: "(''acme'', ''widgets'', ''push'', rc_SHA old_commit)
             \<in> ledger (recordExistingEvents ?p ''acme'' ''widgets'' world0)"
    using inst calls(1) items(1) sound by simp
  have r: "(''acme'', ''widgets'', ''release'', release_eventID (rr_TagName sample_release))
             \<in> ledger (recordExistingEvents ?p ''acme'' ''widgets'' world0)"
    using inst calls(2) items(2) sound by simp
  have i: "(''acme'', ''widgets'', ''issues'', issue_created_eventID (gi_Number ?i))
             \<in> ledger (recordExistingEvents ?p ''acme'' ''widgets'' world0)
           \<and> (''acme'', ''widgets'', ''issues'', issue_closed_eventID (gi_Number ?i))
             \<in> ledger (recordExistingEvents ?p ''acme'' ''widgets'' world0)"
    using inst calls(3) items(3,4) sound by simp
  have p: "(''acme'', ''widgets'', ''pull_request'', pr_created_eventID (gp_Number pr7))
             \<in> ledger (recordExistingEvents ?p ''acme'' ''widgets'' world0)
           \<and> (''acme'', ''widgets'', ''pull_request'', pr_terminal_eventID pr7)
             \<in> ledger (recordExistingEvents ?p ''acme'' ''widgets'' world0)"
    using inst calls(4) items(5) sound by simp
  have n: "rows (recordExistingEvents ?p ''acme'' ''widgets'' world0) \<le> 95"
    using inst calls(5) by (simp add: rows_def world0_def)
  show ?thesis using a b c r i p n unfolding ids by simp
qed

section \<open>The poller: steady state\<close>

lemma emit_buf:
  "ch_buf (eventsCh (emit event w)) =
     (if length (ch_buf (eventsCh w)) < ch_cap (eventsCh w) then ch_buf (eventsCh w) @ [event]
      else ch_buf (eventsCh w))"
  by (simp add: emit_def try_send_def)

lemma emit_cap [simp]: "ch_cap (eventsCh (emit event w)) = ch_cap (eventsCh w)"
  by (simp add: emit_def try_send_def)

subsection \<open>A tick with no new upstream activity\<close>

lemma pollReleases_loop_quiet:
  "\<forall>r\<in>set rs. Before (rr_PublishedAt r) (p_startTime p) \<Longrightarrow>
   pollReleases_loop p owner name rs w = w"
  by (induction rs) simp_all

lemma pollIssues_loop_quiet:
  "\<forall>i\<in>set xs. Before (gi_CreatedAt i) (p_startTime p) \<and> \<not> After (gi_ClosedAt i) (p_startTime p) \<Longrightarrow>
   pollIssues_loop p owner name xs w = w"
  by (induction xs) simp_all

lemma pollPullRequests_loop_quiet:
  "\<forall>pr\<in>set xs. Before (gp_CreatedAt pr) (p_startTime p) \<and> \<not> After (gp_ClosedAt pr) (p_startTime p) \<Longrightarrow>
   pollPullRequests_loop p owner name xs w = w"
  by (induction xs) simp_all

text \<open>A repository with no activity since instant \<open>t\<close>: every commit is dated, every
  release published and every issue and pull request created before \<open>t\<close>, and none of
  the issues and pull requests was closed after \<open>t\<close>.\<close>

definition quiet_before :: "RepoSnapshot \<Rightarrow> time \<Rightarrow> bool" where
  "quiet_before snap t =
     ((\<forall>c\<in>set (snap_commits snap). Before (rc_Date c) t)
      \<and> (\<forall>r\<in>set (snap_releases snap). Before (rr_PublishedAt r) t)
      \<and> (\<forall>i\<in>set (snap_issues snap). Before (gi_CreatedAt i) t \<and> \<not> After (gi_ClosedAt i) t)
      \<and> (\<forall>pr\<in>set (snap_pulls snap). Before (gp_CreatedAt pr) t \<and> \<not> After (gp_ClosedAt pr) t))"

lemma pollRepo_quiet:
  assumes "p_client p = github_serving upstream"
    and "upstream owner name = Some snap"
    and "quiet_before snap (p_startTime p)"
  shows "pollRepo p owner name w = Returns w"
proof -
  have "filter (\<lambda>c. not_older (Some (p_startTime p)) (rc_Date c)) (snap_commits snap) = []"
    using assms(3) by (auto simp: quiet_before_def not_older_def filter_empty_conv)
  then have c: "pollCommits p owner name w = Returns w"
    by (simp add: pollCommits_def assms(1,2) github_serving_def)
  have r: "\<And>w. pollReleases p owner name w = w"
    using assms(3)
    by (auto simp: pollReleases_def assms(1,2) github_serving_def quiet_before_def
          intro!: pollReleases_loop_quiet dest: in_set_takeD)
  have i: "\<And>w. pollIssues p owner name w = w"
    using assms(3)
    by (auto simp: pollIssues_def assms(1,2) github_serving_def quiet_before_def
          intro!: pollIssues_loop_quiet dest!: in_set_takeD)
  have pr: "\<And>w. pollPullRequests p owner name w = w"
    using assms(3)
    by (auto simp: pollPullRequests_def assms(1,2) github_serving_def quiet_before_def
          intro!: pollPullRequests_loop_quiet dest!: in_set_takeD)
  show ?thesis by (simp add: pollRepo_def c r i pr)
qed

text \<open>
  C4. Against a service that honours \<open>Since\<close>, a steady-state pass over a repository
  all of whose commits, releases, issues and pull requests were created or published
  before the watch epoch, and none of which was closed after it, returns the world it
  started from: nothing is sent on the event channel, however long the four lists
  are. This holds in any world, and so in the one initialization leaves behind.
\<close>

theorem no_backlog_after_initialization:
  assumes "p_client p = github_serving upstream"
    and "upstream owner name = Some snap"
    and "quiet_before snap (p_startTime p)"
  shows "pollRepo p owner name (initializeRepos p0 cancelled w)
           = Returns (initializeRepos p0 cancelled w)
         \<and> pollRepo p owner name w = Returns w"
  using assms pollRepo_quiet by blast

theorem no_backlog_after_initialization_witness:
  "quiet_before (widgets_snapshot [issue42 ''closed'' 60]) 100
   \<and> (''acme'', ''widgets'', ''issues'', ''issue-42-closed'')
       \<in> ledger (initializeRepos (widgets_poller [issue42 ''closed'' 60]) (\<lambda>i. False) world0)
   \<and> pollRepo (widgets_poller [issue42 ''closed'' 60]) ''acme'' ''widgets''
        (initializeRepos (widgets_poller [issue42 ''closed'' 60]) (\<lambda>i. False) world0)
       = Returns (initializeRepos (widgets_poller [issue42 ''closed'' 60]) (\<lambda>i. False) world0)"
proof -
  let ?p = "widgets_poller [issue42 ''closed'' 60]"
  have q: "quiet_before (widgets_snapshot [issue42 ''closed'' 60]) 100"
    by (simp add: quiet_before_def widgets_snapshot_def issue42_def old_commit_def
          sample_release_def pr7_def Before_def After_def)
  have l: "(''acme'', ''widgets'', ''issues'', ''issue-42-closed'')
       \<in> ledger (initializeRepos ?p (\<lambda>i. False) world0)"
    unfolding ledger_def by code_simp
  have c: "p_client ?p = github_serving (widgets_upstream [issue42 ''closed'' 60])"
    by (simp add: widgets_poller_def)
  have u: "widgets_upstream [issue42 ''closed'' 60] ''acme'' ''widgets''
             = Some (widgets_snapshot [issue42 ''closed'' 60])"
    by (simp add: widgets_upstream_def)
  have t: "p_startTime ?p = 100" by (simp add: widgets_poller_def)
  show ?thesis
    using no_backlog_after_initialization [OF c u, of ?p "\<lambda>i. False" world0] q l
    by (simp add: t)
qed

subsection \<open>A commit already delivered through the webhook\<close>

lemma message_header_nonempty: "message_header repoOwner repoName \<noteq> []"
  by (simp add: message_header_def icon_bell_def)

lemma buildMessage_nonempty: "buildMessage event = Returns m \<Longrightarrow> m \<noteq> []"
  by (auto simp: buildMessage_def BuildPushMessage_def BuildReleaseMessage_def
        BuildIssueMessage_def BuildPRMessage_def message_header_nonempty
      split: Payload.splits outcome.splits)

lemma HandleWebhookEvent_records:
  assumes "HandleWebhookEvent env event d sent = Returns (d', sent', err)"
    and "GetSubscriptionsByRepo (store_driver env) (ev_RepoOwner event) (ev_RepoName event) d = Inr subs"
    and "subs \<noteq> []"
    and "\<not> exec_fails (store_driver env)
            (ev_RepoOwner event, ev_RepoName event, ev_Type event, generateEventID event)"
  shows "(ev_RepoOwner event, ev_RepoName event, ev_Type event, generateEventID event)
           \<in> set (map key_of (event_records d'))"
proof (cases "fst (IsEventProcessed (store_driver env) (ev_RepoOwner event) (ev_RepoName event)
                     (ev_Type event) (generateEventID event) d)")
  case True
  then have "\<not> get_fails (store_driver env)
            (ev_RepoOwner event, ev_RepoName event, ev_Type event, generateEventID event)"
    by (auto simp: IsEventProcessed_def)
  then have "(ev_RepoOwner event, ev_RepoName event, ev_Type event, generateEventID event)
           \<in> set (map key_of (event_records d))"
    using True IsEventProcessed_mem by blast
  moreover have "d' = d"
    using assms(1,2,3) True by (simp add: HandleWebhookEvent_def Let_def)
  ultimately show ?thesis by simp
next
  case False
  obtain m where m: "buildMessage event = Returns m"
    using assms(1,2,3) False
    by (cases "buildMessage event") (simp_all add: HandleWebhookEvent_def Let_def)
  then have "m \<noteq> []" by (rule buildMessage_nonempty)
  then have "d' = fst (RecordEvent (store_driver env) (ev_RepoOwner event) (ev_RepoName event)
                         (ev_Type event) (generateEventID event) d)"
    using assms(1,2,3) False m by (simp add: HandleWebhookEvent_def Let_def)
  then show ?thesis using assms(4) RecordEvent_records by blast
qed

text \<open>What \<open>pollCommits\<close> adds to the channel: events of commits it found unprocessed.\<close>

lemma pollCommits_loop_emitted:
  "pollCommits_loop p owner name commits w = Returns w' \<Longrightarrow>
   db w' = db w \<and>
   (\<exists>new. ch_buf (eventsCh w') = ch_buf (eventsCh w) @ new
      \<and> (\<forall>e\<in>set new. \<exists>c\<in>set commits. e = commit_event owner name c
             \<and> \<not> processed p owner name ''push'' (rc_SHA c) w))"
proof (induction commits arbitrary: w)
  case Nil
  then show ?case by simp
next
  case (Cons c cs)
  let ?ev = "commit_event owner name c"
  show ?case
  proof (cases "rc_SHA c = [] \<or> processed p owner name ''push'' (rc_SHA c) w")
    case True
    then have "pollCommits_loop p owner name cs w = Returns w'"
      using Cons.prems by (auto split: if_splits)
    from Cons.IH[OF this] show ?thesis by auto
  next
    case False
    then have rec: "pollCommits_loop p owner name cs (emit ?ev w) = Returns w'"
      using Cons.prems by (auto simp: emit_def try_send_def split: if_splits)
    from Cons.IH[OF rec] obtain new where
      new: "db w' = db w" "ch_buf (eventsCh w') = ch_buf (eventsCh (emit ?ev w)) @ new"
        "\<forall>e\<in>set new. \<exists>c\<in>set cs. e = commit_event owner name c
             \<and> \<not> processed p owner name ''push'' (rc_SHA c) w"
      by auto
    show ?thesis
    proof (cases "length (ch_buf (eventsCh w)) < ch_cap (eventsCh w)")
      case True
      then have "ch_buf (eventsCh w') = ch_buf (eventsCh w) @ (?ev # new)"
        using new(2) by (simp add: emit_buf)
      moreover have "\<forall>e\<in>set (?ev # new). \<exists>c'\<in>set (c # cs). e = commit_event owner name c'
             \<and> \<not> processed p owner name ''push'' (rc_SHA c') w"
        using new(3) False by auto
      ultimately show ?thesis using new(1) by blast
    next
      case False
      then have "ch_buf (eventsCh w') = ch_buf (eventsCh w) @ new"
        using new(2) by (simp add: emit_buf)
      moreover have "\<forall>e\<in>set new. \<exists>c'\<in>set (c # cs). e = commit_event owner name c'
             \<and> \<not> processed p owner name ''push'' (rc_SHA c') w"
        using new(3) by auto
      ultimately show ?thesis using new(1) by blast
    qed
  qed
qed

text \<open>
  C2. Let the notifier handle a push event whose \<open>After\<close> is the SHA \<open>S\<close>, for a
  repository with subscribers, and let its ledger insert succeed. Then the key
  \<open>(owner, name, "push", S)\<close> is in the ledger, and a later commit scan of the poller
  whose lookup of that key succeeds finds it processed: whatever the scan adds to the
  channel, no added event is for \<open>S\<close>. So the notifier, which delivers only what the
  channel carries, is not handed \<open>S\<close> a second time.
\<close>

theorem cross_source_dedup:
  assumes handled: "HandleWebhookEvent env event d sent = Returns (d', sent', err)"
    and push: "ev_Payload event = Push e" "ev_Type event = ''push''"
    and subs: "GetSubscriptionsByRepo (store_driver env) (ev_RepoOwner event) (ev_RepoName event) d = Inr subs"
              "subs \<noteq> []"
    and stored: "\<not> exec_fails (store_driver env) (ev_RepoOwner event, ev_RepoName event, ''push'', pe_After e)"
    and lookup: "\<not> get_fails (p_driver p) (ev_RepoOwner event, ev_RepoName event, ''push'', pe_After e)"
    and w: "db w = d'"
    and polled: "pollCommits p (ev_RepoOwner event) (ev_RepoName event) w = Returns w'"
  shows "processed p (ev_RepoOwner event) (ev_RepoName event) ''push'' (pe_After e) w
         \<and> (\<exists>new. ch_buf (eventsCh w') = ch_buf (eventsCh w) @ new
               \<and> (\<forall>x\<in>set new. ev_Type x = ''push'' \<and> generateEventID x \<noteq> pe_After e))"
proof -
  have id: "generateEventID event = pe_After e"
    by (simp add: generateEventID_def push(1))
  have "(ev_RepoOwner event, ev_RepoName event, ''push'', pe_After e) \<in> set (map key_of (event_records d'))"
    using HandleWebhookEvent_records[OF handled subs] stored by (simp add: id push(2))
  then have proc: "processed p (ev_RepoOwner event) (ev_RepoName event) ''push'' (pe_After e) w"
    using lookup IsEventProcessed_mem[OF lookup, of "db w"] by (simp add: processed_def w)
  have "\<exists>new. ch_buf (eventsCh w') = ch_buf (eventsCh w) @ new
          \<and> (\<forall>x\<in>set new. ev_Type x = ''push'' \<and> generateEventID x \<noteq> pe_After e)"
  proof (cases "ListCommits (p_client p) (ev_RepoOwner event) (ev_RepoName event) (Some (p_startTime p)) 10")
    case (Inl a)
    then have "w' = w" using polled by (simp add: pollCommits_def)
    then show ?thesis by simp
  next
    case (Inr commits)
    then have "pollCommits_loop p (ev_RepoOwner event) (ev_RepoName event) commits w = Returns w'"
      using polled by (simp add: pollCommits_def)
    from pollCommits_loop_emitted[OF this] obtain new where
      new: "ch_buf (eventsCh w') = ch_buf (eventsCh w) @ new"
        "\<forall>x\<in>set new. \<exists>c\<in>set commits. x = commit_event (ev_RepoOwner event) (ev_RepoName event) c
             \<and> \<not> processed p (ev_RepoOwner event) (ev_RepoName event) ''push'' (rc_SHA c) w"
      by auto
    have "\<forall>x\<in>set new. ev_Type x = ''push'' \<and> generateEventID x \<noteq> pe_After e"
    proof
      fix x assume "x \<in> set new"
      then obtain c where c: "x = commit_event (ev_RepoOwner event) (ev_RepoName event) c"
        "\<not> processed p (ev_RepoOwner event) (ev_RepoName event) ''push'' (rc_SHA c) w"
        using new(2) by blast
      have "generateEventID x = rc_SHA c" "ev_Type x = ''push''"
        by (simp_all add: c(1) generateEventID_def commit_event_def)
      then show "ev_Type x = ''push'' \<and> generateEventID x \<noteq> pe_After e" using c(2) proc by auto
    qed
    then show ?thesis using new(1) by blast
  qed
  then show ?thesis using proc by simp
qed

text \<open>The commit \<open>new_commit\<close> is pushed after the watch began; the webhook delivers it
  first, then the poller's scan sees it.\<close>

definition new_commit :: RepositoryCommit where
  "new_commit =
     \<lparr>rc_SHA = ''89abcdef0123456789abcdef0123456789abcdef'', rc_AuthorLogin = ''alice'',
      rc_Message = ''Fix gears'', rc_CommitAuthorName = ''Alice'',
      rc_HTMLURL = ''https://example.org/c/89abcde'', rc_Date = 150\<rparr>"

definition new_commit_upstream :: "string \<Rightarrow> string \<Rightarrow> RepoSnapshot option" where
  "new_commit_upstream owner name =
     (if owner = ''acme'' \<and> name = ''widgets''
      then Some ((widgets_snapshot [])\<lparr>snap_commits := [new_commit, old_commit]\<rparr>)
      else None)"

definition new_commit_poller :: Poller where
  "new_commit_poller =
     \<lparr>p_client = github_serving new_commit_upstream, p_driver = sound_driver 200,
      p_startTime = 100\<rparr>"

definition push_webhook_event :: WebhookEvent where
  "push_webhook_event =
     \<lparr>ev_Type = ''push'', ev_RepoOwner = ''acme'', ev_RepoName = ''widgets'',
      ev_Payload = Push
        \<lparr>pe_Ref = ''refs/heads/main'', pe_Before = ''0123456789abcdef0123456789abcdef01234567'',
          pe_After = ''89abcdef0123456789abcdef0123456789abcdef'',
          pe_Commits = [], pe_Pusher = \<lparr>ui_Login = ''alice'', ui_AvatarURL = [], ui_URL = []\<rparr>,
          pe_Compare = ''https://example.org/compare'', pe_HeadCommit = None\<rparr>\<rparr>"

definition returned :: "'a \<Rightarrow> 'a outcome \<Rightarrow> 'a" where
  "returned dflt r = (case r of Panics \<Rightarrow> dflt | Returns x \<Rightarrow> x)"

definition webhook_db :: Database where
  "webhook_db =
     \<lparr>subscriptions = [sample_subscription 7 default_events_json],
      event_records =
        [\<lparr>er_RepoOwner = ''acme'', er_RepoName = ''widgets'', er_EventType = ''push'',
          er_EventID = ''89abcdef0123456789abcdef0123456789abcdef'', er_CreatedAt = 160\<rparr>]\<rparr>"

theorem cross_source_dedup_witness:
  "HandleWebhookEvent (sample_env 160) push_webhook_event (db world0) []
     = Returns (webhook_db, [(7, returned [] (buildMessage push_webhook_event))], None)
   \<and> ListCommits (p_client new_commit_poller) ''acme'' ''widgets'' (Some 100) 10 = Inr [new_commit]
   \<and> processed new_commit_poller ''acme'' ''widgets'' ''push''
        ''89abcdef0123456789abcdef0123456789abcdef'' (world0\<lparr>db := webhook_db\<rparr>)
   \<and> pollCommits new_commit_poller ''acme'' ''widgets'' (world0\<lparr>db := webhook_db\<rparr>)
       = Returns (world0\<lparr>db := webhook_db\<rparr>)"
proof -
  let ?S = "''89abcdef0123456789abcdef0123456789abcdef''"
  let ?w = "world0\<lparr>db := webhook_db\<rparr>"
  let ?e = "\<lparr>pe_Ref = ''refs/heads/main'', pe_Before = ''0123456789abcdef0123456789abcdef01234567'',
          pe_After = ?S,
          pe_Commits = [], pe_Pusher = \<lparr>ui_Login = ''alice'', ui_AvatarURL = [], ui_URL = []\<rparr>,
          pe_Compare = ''https://example.org/compare'', pe_HeadCommit = None\<rparr>"
  have handled: "HandleWebhookEvent (sample_env 160) push_webhook_event (db world0) []
     = Returns (webhook_db, [(7, returned [] (buildMessage push_webhook_event))], None)"
    by code_simp
  have listed: "ListCommits (p_client new_commit_poller) ''acme'' ''widgets'' (Some 100) 10
                  = Inr [new_commit]"
    by code_simp
  have polled: "pollCommits new_commit_poller (ev_RepoOwner push_webhook_event)
                  (ev_RepoName push_webhook_event) ?w = Returns ?w"
    by code_simp
  have push: "ev_Payload push_webhook_event = Push ?e" "ev_Type push_webhook_event = ''push''"
    by (simp_all add: push_webhook_event_def)
  have subs: "GetSubscriptionsByRepo (store_driver (sample_env 160))
                (ev_RepoOwner push_webhook_event) (ev_RepoName push_webhook_event) (db world0)
              = Inr [sample_subscription 7 default_events_json]"
    "[sample_subscription 7 default_events_json] \<noteq> []"
    by (simp_all add: GetSubscriptionsByRepo_def sample_env_def sound_driver_def world0_def
          push_webhook_event_def sample_subscription_def)
  have stored: "\<not> exec_fails (store_driver (sample_env 160))
                   (ev_RepoOwner push_webhook_event, ev_RepoName push_webhook_event, ''push'', pe_After ?e)"
    by (simp add: sample_env_def sound_driver_def)
  have lookup: "\<not> get_fails (p_driver new_commit_poller)
                   (ev_RepoOwner push_webhook_event, ev_RepoName push_webhook_event, ''push'', pe_After ?e)"
    by (simp add: new_commit_poller_def sound_driver_def)
  have w: "db ?w = webhook_db" by simp
  have "processed new_commit_poller (ev_RepoOwner push_webhook_event)
          (ev_RepoName push_webhook_event) ''push'' (pe_After ?e) ?w"
    using cross_source_dedup [OF handled push subs stored lookup w polled] by simp
  then have "processed new_commit_poller ''acme'' ''widgets'' ''push'' ?S ?w"
    by (simp add: push_webhook_event_def)
  moreover have "pollCommits new_commit_poller ''acme'' ''widgets'' ?w = Returns ?w"
    using polled by (simp add: push_webhook_event_def)
  ultimately show ?thesis using handled listed by simp
qed

subsection \<open>A ledger lookup that fails\<close>

lemma processed_lookup_fails:
  "get_fails (p_driver p) (owner, name, ty, i) \<Longrightarrow> \<not> processed p owner name ty i w"
  by (simp add: processed_def IsEventProcessed_def)

text \<open>Whether the channel has room for one more event.\<close>

definition has_room :: "World \<Rightarrow> bool" where
  "has_room w = (length (ch_buf (eventsCh w)) < ch_cap (eventsCh w))"

text \<open>
  C6. When the lookup of an event's key fails, the notifier goes on as for an event
  not yet processed: with subscribers present and the message built, it sends to every
  subscriber whose filter admits the event type and then attempts the ledger insert.
  In the poller, every place that consults the ledger treats a failed lookup as "not
  processed": the event of the commit, release, issue or pull request at hand is
  handed to the non-blocking send (which appends it when the channel has room) and
  the scan goes on with the remaining items.
\<close>

theorem lookup_error_fails_open:
  "(get_fails (store_driver env)
        (ev_RepoOwner event, ev_RepoName event, ev_Type event, generateEventID event)
      \<and> GetSubscriptionsByRepo (store_driver env) (ev_RepoOwner event) (ev_RepoName event) d = Inr subs
      \<and> subs \<noteq> [] \<and> buildMessage event = Returns message
    \<longrightarrow> HandleWebhookEvent env event d sent =
          Returns (fst (RecordEvent (store_driver env) (ev_RepoOwner event) (ev_RepoName event)
                          (ev_Type event) (generateEventID event) d),
                   send_to_subscribers env (ev_Type event) message subs sent, None))
   \<and> (get_fails (p_driver p) (owner, name, ''push'', rc_SHA commit) \<and> rc_SHA commit \<noteq> []
        \<and> (has_room w \<longrightarrow> 7 \<le> length (rc_SHA commit))
      \<longrightarrow> pollCommits_loop p owner name (commit # commits) w =
            pollCommits_loop p owner name commits (emit (commit_event owner name commit) w))
   \<and> (get_fails (p_driver p) (owner, name, ''release'', release_eventID (rr_TagName release))
        \<and> \<not> rr_Draft release \<and> \<not> Before (rr_PublishedAt release) (p_startTime p)
      \<longrightarrow> pollReleases_loop p owner name (release # releases) w =
            pollReleases_loop p owner name releases (emit (release_event owner name release) w))
   \<and> (get_fails (p_driver p) (owner, name, ''issues'', issue_created_eventID (gi_Number issue))
        \<and> \<not> gi_IsPullRequest issue \<and> \<not> Before (gi_CreatedAt issue) (p_startTime p)
      \<longrightarrow> pollIssues_loop p owner name (issue # issues) w =
            pollIssues_loop p owner name issues
              (emit (issue_event owner name ''opened'' (gi_State issue) issue) w))
   \<and> (get_fails (p_driver p) (owner, name, ''issues'', issue_closed_eventID (gi_Number issue))
      \<longrightarrow> notifyIssueClosed p owner name issue w =
            emit (issue_event owner name ''closed'' ''closed'' issue) w)
   \<and> (get_fails (p_driver p) (owner, name, ''pull_request'', pr_created_eventID (gp_Number pr))
        \<and> \<not> Before (gp_CreatedAt pr) (p_startTime p)
      \<longrightarrow> pollPullRequests_loop p owner name (pr # prs) w =
            pollPullRequests_loop p owner name prs
              (emit (pr_event owner name ''opened'' (gp_State pr) pr) w))
   \<and> (get_fails (p_driver p) (owner, name, ''pull_request'', pr_terminal_eventID pr)
      \<longrightarrow> notifyPRClosed p owner name pr w =
            emit (pr_event owner name (if gp_Merged pr then ''merged'' else ''closed'') ''closed'' pr) w)
   \<and> (has_room w \<longrightarrow> ch_buf (eventsCh (emit x w)) = ch_buf (eventsCh w) @ [x])"
proof -
  have n: "get_fails (store_driver env)
        (ev_RepoOwner event, ev_RepoName event, ev_Type event, generateEventID event)
      \<and> GetSubscriptionsByRepo (store_driver env) (ev_RepoOwner event) (ev_RepoName event) d = Inr subs
      \<and> subs \<noteq> [] \<and> buildMessage event = Returns message
    \<longrightarrow> HandleWebhookEvent env event d sent =
          Returns (fst (RecordEvent (store_driver env) (ev_RepoOwner event) (ev_RepoName event)
                          (ev_Type event) (generateEventID event) d),
                   send_to_subscribers env (ev_Type event) message subs sent, None)"
    using buildMessage_nonempty[of event message]
    by (auto simp: HandleWebhookEvent_def IsEventProcessed_def Let_def)
  have c: "get_fails (p_driver p) (owner, name, ''push'', rc_SHA commit) \<and> rc_SHA commit \<noteq> []
        \<and> (has_room w \<longrightarrow> 7 \<le> length (rc_SHA commit))
      \<longrightarrow> pollCommits_loop p owner name (commit # commits) w =
            pollCommits_loop p owner name commits (emit (commit_event owner name commit) w)"
    by (auto simp: processed_lookup_fails has_room_def try_send_def emit_def)
  have r: "get_fails (p_driver p) (owner, name, ''release'', release_eventID (rr_TagName release))
        \<and> \<not> rr_Draft release \<and> \<not> Before (rr_PublishedAt release) (p_startTime p)
      \<longrightarrow> pollReleases_loop p owner name (release # releases) w =
            pollReleases_loop p owner name releases (emit (release_event owner name release) w)"
    by (simp add: processed_lookup_fails)
  have i: "get_fails (p_driver p) (owner, name, ''issues'', issue_created_eventID (gi_Number issue))
        \<and> \<not> gi_IsPullRequest issue \<and> \<not> Before (gi_CreatedAt issue) (p_startTime p)
      \<longrightarrow> pollIssues_loop p owner name (issue # issues) w =
            pollIssues_loop p owner name issues
              (emit (issue_event owner name ''opened'' (gi_State issue) issue) w)"
    by (simp add: processed_lookup_fails)
  have ic: "get_fails (p_driver p) (owner, name, ''issues'', issue_closed_eventID (gi_Number issue))
      \<longrightarrow> notifyIssueClosed p owner name issue w =
            emit (issue_event owner name ''closed'' ''closed'' issue) w"
    by (simp add: processed_lookup_fails notifyIssueClosed_def)
  have pr: "get_fails (p_driver p) (owner, name, ''pull_request'', pr_created_eventID (gp_Number pr))
        \<and> \<not> Before (gp_CreatedAt pr) (p_startTime p)
      \<longrightarrow> pollPullRequests_loop p owner name (pr # prs) w =
            pollPullRequests_loop p owner name prs
              (emit (pr_event owner name ''opened'' (gp_State pr) pr) w)"
    by (simp add: processed_lookup_fails)
  have prc: "get_fails (p_driver p) (owner, name, ''pull_request'', pr_terminal_eventID pr)
      \<longrightarrow> notifyPRClosed p owner name pr w =
            emit (pr_event owner name (if gp_Merged pr then ''merged'' else ''closed'') ''closed'' pr) w"
    by (auto simp: processed_lookup_fails notifyPRClosed_def pr_terminal_eventID_def Let_def)
  have e: "has_room w \<longrightarrow> ch_buf (eventsCh (emit x w)) = ch_buf (eventsCh w) @ [x]"
    by (simp add: emit_buf has_room_def)
  show ?thesis using n c r i ic pr prc e by blast
qed

text \<open>A driver whose lookups all fail while its inserts work.\<close>

definition blind_driver :: "time \<Rightarrow> driver" where
  "blind_driver t = (sound_driver t)\<lparr>get_fails := (\<lambda>k. True)\<rparr>"

definition blind_poller :: Poller where
  "blind_poller = new_commit_poller\<lparr>p_driver := blind_driver 200\<rparr>"

text \<open>Activity after the watch began: a release, issue 43 and pull request 8.\<close>

definition new_release :: RepositoryRelease where
  "new_release = sample_release\<lparr>rr_TagName := ''v1.1.0'', rr_Name := ''Second'', rr_PublishedAt := 150\<rparr>"

definition issue43 :: GhIssue where
  "issue43 =
     \<lparr>gi_Number = 43, gi_Title = ''Gear slips'', gi_Body = [], gi_State = ''open'',
      gi_HTMLURL = ''https://example.org/i/43'', gi_UserLogin = ''dave'', gi_Labels = [''bug''],
      gi_CreatedAt = 110, gi_ClosedAt = 0, gi_UpdatedAt = 110, gi_IsPullRequest = False\<rparr>"

definition pr8 :: GhPullRequest where
  "pr8 = pr7\<lparr>gp_Number := 8, gp_Title := ''Fix slip'', gp_State := ''open'', gp_Merged := False,
               gp_CreatedAt := 120, gp_ClosedAt := 0\<rparr>"

theorem lookup_error_fails_open_witness:
  "snd (IsEventProcessed (blind_driver 170) ''acme'' ''widgets'' ''push''
          ''89abcdef0123456789abcdef0123456789abcdef'' webhook_db) = Some StoreError
   \<and> HandleWebhookEvent ((sample_env 170)\<lparr>store_driver := blind_driver 170\<rparr>)
        push_webhook_event webhook_db []
       = Returns (webhook_db, [(7, returned [] (buildMessage push_webhook_event))], None)
   \<and> pollCommits_loop blind_poller ''acme'' ''widgets'' [new_commit] (world0\<lparr>db := webhook_db\<rparr>)
       = Returns (world0\<lparr>db := webhook_db,
                         eventsCh := \<lparr>ch_buf = [commit_event ''acme'' ''widgets'' new_commit],
                                      ch_cap = 100\<rparr>\<rparr>)
   \<and> pollReleases_loop blind_poller ''acme'' ''widgets'' [new_release] world0
       = emit (release_event ''acme'' ''widgets'' new_release) world0
   \<and> pollIssues_loop blind_poller ''acme'' ''widgets'' [issue43] world0
       = emit (issue_event ''acme'' ''widgets'' ''opened'' ''open'' issue43) world0
   \<and> notifyIssueClosed blind_poller ''acme'' ''widgets'' (issue42 ''closed'' 150) world0
       = emit (issue_event ''acme'' ''widgets'' ''closed'' ''closed'' (issue42 ''closed'' 150)) world0
   \<and> pollPullRequests_loop blind_poller ''acme'' ''widgets'' [pr8] world0
       = emit (pr_event ''acme'' ''widgets'' ''opened'' ''open'' pr8) world0
   \<and> notifyPRClosed blind_poller ''acme'' ''widgets'' pr7 world0
       = emit (pr_event ''acme'' ''widgets'' ''merged'' ''closed'' pr7) world0"
proof -
  let ?env = "(sample_env 170)\<lparr>store_driver := blind_driver 170\<rparr>"
  let ?w = "world0\<lparr>db := webhook_db\<rparr>"
  let ?m = "returned [] (buildMessage push_webhook_event)"
  have blind: "\<And>k. get_fails (p_driver blind_poller) k"
    by (simp add: blind_poller_def blind_driver_def)
  have a: "snd (IsEventProcessed (blind_driver 170) ''acme'' ''widgets'' ''push''
          ''89abcdef0123456789abcdef0123456789abcdef'' webhook_db) = Some StoreError"
    by (simp add: IsEventProcessed_def blind_driver_def sound_driver_def)
  have h1: "get_fails (store_driver ?env)
        (ev_RepoOwner push_webhook_event, ev_RepoName push_webhook_event,
         ev_Type push_webhook_event, generateEventID push_webhook_event)"
    by (simp add: blind_driver_def)
  have h2: "GetSubscriptionsByRepo (store_driver ?env) (ev_RepoOwner push_webhook_event)
              (ev_RepoName push_webhook_event) webhook_db
            = Inr [sample_subscription 7 default_events_json]"
    by (simp add: GetSubscriptionsByRepo_def blind_driver_def sound_driver_def webhook_db_def
          push_webhook_event_def sample_subscription_def)
  have h3: "buildMessage push_webhook_event = Returns ?m"
    by code_simp
  have h5: "rc_SHA new_commit \<noteq> []" "7 \<le> length (rc_SHA new_commit)"
    by (simp_all add: new_commit_def)
  note inst = lookup_error_fails_open [of ?env push_webhook_event webhook_db
      "[sample_subscription 7 default_events_json]" ?m "[]" blind_poller "''acme''" "''widgets''"
      new_commit ?w "[]"]
  have b: "HandleWebhookEvent ?env push_webhook_event webhook_db [] =
          Returns (fst (RecordEvent (store_driver ?env) (ev_RepoOwner push_webhook_event)
                          (ev_RepoName push_webhook_event) (ev_Type push_webhook_event)
                          (generateEventID push_webhook_event) webhook_db),
                   send_to_subscribers ?env (ev_Type push_webhook_event) ?m
                     [sample_subscription 7 default_events_json] [], None)"
    using inst h1 h2 h3 by blast
  have b1: "fst (RecordEvent (store_driver ?env) (ev_RepoOwner push_webhook_event)
                          (ev_RepoName push_webhook_event) (ev_Type push_webhook_event)
                          (generateEventID push_webhook_event) webhook_db) = webhook_db"
    by code_simp
  have b2: "send_to_subscribers ?env (ev_Type push_webhook_event) ?m
                     [sample_subscription 7 default_events_json] [] = [(7, ?m)]"
    by code_simp
  have c: "pollCommits_loop blind_poller ''acme'' ''widgets'' [new_commit] ?w =
            pollCommits_loop blind_poller ''acme'' ''widgets'' [] (emit (commit_event ''acme'' ''widgets'' new_commit) ?w)"
    using inst blind h5 by blast
  have c1: "emit (commit_event ''acme'' ''widgets'' new_commit) ?w
        = world0\<lparr>db := webhook_db,
                         eventsCh := \<lparr>ch_buf = [commit_event ''acme'' ''widgets'' new_commit],
                                      ch_cap = 100\<rparr>\<rparr>"
    by (simp add: emit_def try_send_def world0_def)
  note opened = lookup_error_fails_open [of ?env push_webhook_event webhook_db
      "[sample_subscription 7 default_events_json]" ?m "[]" blind_poller "''acme''" "''widgets''"
      new_commit world0 "[]" new_release "[]" issue43 "[]" pr8 "[]"]
  note closed = lookup_error_fails_open [of ?env push_webhook_event webhook_db
      "[sample_subscription 7 default_events_json]" ?m "[]" blind_poller "''acme''" "''widgets''"
      new_commit world0 "[]" new_release "[]" "issue42 ''closed'' 150" "[]" pr7 "[]"]
  have t: "p_startTime blind_poller = 100"
    by (simp add: blind_poller_def new_commit_poller_def)
  have r: "pollReleases_loop blind_poller ''acme'' ''widgets'' [new_release] world0
       = emit (release_event ''acme'' ''widgets'' new_release) world0"
    using opened blind by (simp add: t new_release_def sample_release_def Before_def)
  have i: "pollIssues_loop blind_poller ''acme'' ''widgets'' [issue43] world0
       = emit (issue_event ''acme'' ''widgets'' ''opened'' ''open'' issue43) world0"
    using opened blind by (simp add: t issue43_def Before_def)
  have ic: "notifyIssueClosed blind_poller ''acme'' ''widgets'' (issue42 ''closed'' 150) world0
       = emit (issue_event ''acme'' ''widgets'' ''closed'' ''closed'' (issue42 ''closed'' 150)) world0"
    using closed blind by blast
  have p: "pollPullRequests_loop blind_poller ''acme'' ''widgets'' [pr8] world0
       = emit (pr_event ''acme'' ''widgets'' ''opened'' ''open'' pr8) world0"
    using opened blind by (simp add: t pr8_def pr7_def Before_def)
  have pc: "notifyPRClosed blind_poller ''acme'' ''widgets'' pr7 world0
       = emit (pr_event ''acme'' ''widgets'' ''merged'' ''closed'' pr7) world0"
    using closed blind by (simp add: pr7_def)
  show ?thesis using a b b1 b2 c c1 r i ic p pc by simp
qed

subsection \<open>An issue closed after the watch began\<close>

lemma pollIssues_loop_db [simp]: "db (pollIssues_loop p owner name issues w) = db w"
  by (induction issues arbitrary: w) (simp_all add: notifyIssueClosed_def)

text \<open>In one pass, an issue created before the epoch and closed after it gets the
  \<open>closed\<close> event when \<open>issue-N-closed\<close> is not in the ledger, and the pass leaves the
  ledger as it was.\<close>

lemma closed_issue_emitted:
  assumes "\<not> gi_IsPullRequest issue" and "Before (gi_CreatedAt issue) (p_startTime p)"
    and "gi_State issue = ''closed''" and "After (gi_ClosedAt issue) (p_startTime p)"
    and "\<not> IsZero (gi_ClosedAt issue)"
    and "\<not> processed p owner name ''issues'' (issue_closed_eventID (gi_Number issue)) w"
  shows "pollIssues_loop p owner name [issue] w
           = emit (issue_event owner name ''closed'' ''closed'' issue) w"
  using assms by (simp add: notifyIssueClosed_def)

lemma generateEventID_commit_event:
  "generateEventID (commit_event owner name commit) = rc_SHA commit"
  by (simp add: generateEventID_def commit_event_def)

lemma generateEventID_release_event:
  "generateEventID (release_event owner name release) = rr_TagName release"
  by (simp add: generateEventID_def release_event_def)

lemma generateEventID_issue_event:
  "generateEventID (issue_event owner name action state issue)
     = itoa (gi_Number issue) @ ''-'' @ action"
  by (simp add: generateEventID_def issue_event_def)

lemma generateEventID_pr_event:
  "generateEventID (pr_event owner name action state pr) = itoa (gp_Number pr) @ ''-'' @ action"
  by (simp add: generateEventID_def pr_event_def)

text \<open>The id under which the notifier records the poller's \<open>closed\<close> event is never the
  id the poller looks up.\<close>

lemma closed_issue_ids_differ:
  "generateEventID (issue_event owner name ''closed'' ''closed'' issue)
     \<noteq> issue_closed_eventID (gi_Number issue)"
proof
  assume "generateEventID (issue_event owner name ''closed'' ''closed'' issue)
            = issue_closed_eventID (gi_Number issue)"
  then have "length (generateEventID (issue_event owner name ''closed'' ''closed'' issue))
               = length (issue_closed_eventID (gi_Number issue))"
    by simp
  then show False
    by (simp add: generateEventID_issue_event issue_closed_eventID_def)
qed

lemma release_ids_differ:
  "generateEventID (release_event owner name release) \<noteq> release_eventID (rr_TagName release)"
  by (simp add: generateEventID_release_event release_eventID_def)

lemma RecordEvent_ledger:
  "set (map key_of (event_records (fst (RecordEvent drv a b c e d))))
     \<subseteq> insert (a, b, c, e) (set (map key_of (event_records d)))"
  by (auto simp: RecordEvent_def key_of_def)

text \<open>The notifier adds at most the key of the event it handled.\<close>

lemma HandleWebhookEvent_ledger:
  assumes "HandleWebhookEvent env event d sent = Returns (d', sent', err)"
  shows "set (map key_of (event_records d'))
           \<subseteq> insert (ev_RepoOwner event, ev_RepoName event, ev_Type event, generateEventID event)
                (set (map key_of (event_records d)))"
proof -
  have "d' = d \<or> d' = fst (RecordEvent (store_driver env) (ev_RepoOwner event)
                              (ev_RepoName event) (ev_Type event) (generateEventID event) d)"
    using assms
    by (auto simp: HandleWebhookEvent_def Let_def split: sum.splits if_splits outcome.splits)
  then show ?thesis
  proof
    assume "d' = d"
    then show ?thesis by auto
  next
    assume "d' = fst (RecordEvent (store_driver env) (ev_RepoOwner event)
                              (ev_RepoName event) (ev_Type event) (generateEventID event) d)"
    then show ?thesis by (simp only: RecordEvent_ledger)
  qed
qed

text \<open>
  The second pass, in general: after the notifier has handled the \<open>closed\<close> event of
  such an issue, the poller's lookup of \<open>issue-N-closed\<close> still finds nothing, and the
  next pass over the issue sends the event again.
\<close>

lemma closed_issue_emitted_again:
  assumes "\<not> gi_IsPullRequest issue" and "Before (gi_CreatedAt issue) (p_startTime p)"
    and "gi_State issue = ''closed''" and "After (gi_ClosedAt issue) (p_startTime p)"
    and "\<not> IsZero (gi_ClosedAt issue)"
    and first: "\<not> processed p owner name ''issues'' (issue_closed_eventID (gi_Number issue)) w"
    and lookup: "\<not> get_fails (p_driver p)
                    (owner, name, ''issues'', issue_closed_eventID (gi_Number issue))"
    and handled: "HandleWebhookEvent env (issue_event owner name ''closed'' ''closed'' issue)
                    (db w) sent = Returns (d', sent', err)"
  shows "pollIssues_loop p owner name [issue] (w\<lparr>db := d'\<rparr>)
           = emit (issue_event owner name ''closed'' ''closed'' issue) (w\<lparr>db := d'\<rparr>)"
proof -
  let ?k = "(owner, name, ''issues'', issue_closed_eventID (gi_Number issue))"
  let ?ev = "issue_event owner name ''closed'' ''closed'' issue"
  have "?k \<notin> set (map key_of (event_records (db w)))"
    using first IsEventProcessed_mem[OF lookup, of "db w"] by (simp add: processed_def)
  moreover have "?k \<noteq> (ev_RepoOwner ?ev, ev_RepoName ?ev, ev_Type ?ev, generateEventID ?ev)"
    using closed_issue_ids_differ[of owner name issue] by auto
  ultimately have "?k \<notin> set (map key_of (event_records d'))"
    using HandleWebhookEvent_ledger[OF handled] by blast
  then have "\<not> processed p owner name ''issues'' (issue_closed_eventID (gi_Number issue))
               (w\<lparr>db := d'\<rparr>)"
    using IsEventProcessed_mem[OF lookup, of d'] by (simp add: processed_def)
  with assms(1-5) show ?thesis
    by (simp add: notifyIssueClosed_def)
qed

definition issue42_closed_event :: WebhookEvent where
  "issue42_closed_event =
     issue_event ''acme'' ''widgets'' ''closed'' ''closed'' (issue42 ''closed'' 150)"

text \<open>The world after initialization, run while issue 42 was still open.\<close>

definition world1 :: World where
  "world1 = initializeRepos (widgets_poller [issue42 ''open'' 0]) (\<lambda>i. False) world0"

text \<open>
  C3, on the code. Issue 42 was created at 50, the watch began at 100, the issue is
  closed at 150. The first pass after that sends the \<open>closed\<close> event once, and no
  \<open>opened\<close> event. The notifier delivers it and records it under \<open>42-closed\<close>. The
  second pass looks up \<open>issue-42-closed\<close>, does not find it, and sends the same
  \<open>closed\<close> event again.
\<close>

theorem poller_repeats_closed_issue:
  "map er_EventID (event_records (db world1))
     = [''0123456789abcdef0123456789abcdef01234567'', ''release-v1.0.0'', ''issue-42-created'',
        ''pr-7-created'', ''pr-7-merged'']
   \<and> (case pollRepo (widgets_poller [issue42 ''closed'' 150]) ''acme'' ''widgets'' world1 of
        Panics \<Rightarrow> False
      | Returns w2 \<Rightarrow>
          ch_buf (eventsCh w2) = [issue42_closed_event]
          \<and> (case process_events (sample_env 160) (ch_buf (eventsCh w2)) (db w2) [] of
               Panics \<Rightarrow> False
             | Returns (d3, sent3) \<Rightarrow>
                 map fst sent3 = [7]
                 \<and> map er_EventID (event_records d3)
                     = [''0123456789abcdef0123456789abcdef01234567'', ''release-v1.0.0'',
                        ''issue-42-created'', ''pr-7-created'', ''pr-7-merged'', ''42-closed'']
                 \<and> (case pollRepo (widgets_poller [issue42 ''closed'' 150]) ''acme'' ''widgets''
                            \<lparr>db = d3, eventsCh = \<lparr>ch_buf = [], ch_cap = 100\<rparr>\<rparr> of
                      Panics \<Rightarrow> False
                    | Returns w4 \<Rightarrow> ch_buf (eventsCh w4) = [issue42_closed_event])))"
  by code_simp

section \<open>Event ids on the two ingestion paths\<close>

definition pr7_webhook_event :: WebhookEvent where
  "pr7_webhook_event =
     \<lparr>ev_Type = ''pull_request'', ev_RepoOwner = ''acme'', ev_RepoName = ''widgets'',
      ev_Payload = PullRequest
        \<lparr>pr_Action = ''closed'', pr_Number = 7, pr_Title = ''Add gears'', pr_Body = [],
          pr_State = ''closed'', pr_URL = ''https://example.org/p/7'',
          pr_User = \<lparr>ui_Login = ''carol'', ui_AvatarURL = [], ui_URL = []\<rparr>,
          pr_Merged = True, pr_MergedBy = None,
          pr_Base = \<lparr>bi_Ref = ''main'', bi_SHA = [], bi_Repo = []\<rparr>,
          pr_Head = \<lparr>bi_Ref = ''gears'', bi_SHA = [], bi_Repo = []\<rparr>,
          pr_Additions = 10, pr_Deletions = 2, pr_Commits = 1\<rparr>\<rparr>"

text \<open>
  C1, on the code. The two paths agree on the id of a push (the commit SHA). For the
  other kinds they do not: for the release \<open>v1.0.0\<close> the notifier derives \<open>v1.0.0\<close>,
  from the webhook's event and from the poller's event alike, while the poller
  derives \<open>release-v1.0.0\<close>; for issue 42 the notifier derives \<open>42-opened\<close> and
  \<open>42-closed\<close>, the poller \<open>issue-42-created\<close> and \<open>issue-42-closed\<close>; for the merged
  pull request 7 the notifier derives \<open>7-closed\<close> from the webhook's event and
  \<open>7-merged\<close> from the poller's, the poller \<open>pr-7-merged\<close>.
\<close>

theorem event_id_schemes_disagree:
  "generateEventID push_webhook_event = ''89abcdef0123456789abcdef0123456789abcdef''
   \<and> generateEventID (commit_event ''acme'' ''widgets'' new_commit)
       = ''89abcdef0123456789abcdef0123456789abcdef''
   \<and> fst (parseEvent sample_decoder ''release'' ''{}'') = Inr (Some sample_release_event)
   \<and> generateEventID sample_release_event = ''v1.0.0''
   \<and> generateEventID (release_event ''acme'' ''widgets'' sample_release) = ''v1.0.0''
   \<and> release_eventID (rr_TagName sample_release) = ''release-v1.0.0''
   \<and> generateEventID (issue_event ''acme'' ''widgets'' ''opened'' ''open'' (issue42 ''open'' 0))
       = ''42-opened''
   \<and> issue_created_eventID (gi_Number (issue42 ''open'' 0)) = ''issue-42-created''
   \<and> generateEventID issue42_closed_event = ''42-closed''
   \<and> issue_closed_eventID (gi_Number (issue42 ''closed'' 150)) = ''issue-42-closed''
   \<and> generateEventID pr7_webhook_event = ''7-closed''
   \<and> generateEventID (pr_event ''acme'' ''widgets'' ''merged'' ''closed'' pr7) = ''7-merged''
   \<and> pr_terminal_eventID pr7 = ''pr-7-merged''"
  by code_simp

end
